theory Spec2Isabelle
  imports Main
begin

section \<open>Values, rows and the store\<close>

text \<open>
  The handlers are TypeScript over untyped request bodies and untyped rows of the hosted
  store, so the model keeps JavaScript values: a request body, a row and a response body
  are objects, an object is the list of its properties in order. Floating point numbers
  other than integers do not occur in the modelled handlers.
\<close>

datatype jv =
    JUndefined
  | JNull
  | JBool bool
  | JNum int
  | JStr string
  | JArr "jv list"
  | JObj "(string \<times> jv) list"

type_synonym row = "(string \<times> jv) list"

text \<open>JavaScript truthiness, the test behind \<^verbatim>\<open>!x\<close>, \<^verbatim>\<open>x || y\<close> and \<^verbatim>\<open>if (x)\<close>.\<close>

fun truthy :: "jv \<Rightarrow> bool" where
  "truthy JUndefined = False"
| "truthy JNull = False"
| "truthy (JBool b) = b"
| "truthy (JNum n) = (n \<noteq> 0)"
| "truthy (JStr s) = (s \<noteq> [])"
| "truthy (JArr xs) = True"
| "truthy (JObj ps) = True"

text \<open>Property access \<^verbatim>\<open>o.k\<close>: a missing property reads as \<^verbatim>\<open>undefined\<close>.\<close>

definition fld :: "row \<Rightarrow> string \<Rightarrow> jv" where
  "fld r k = (case map_of r k of None \<Rightarrow> JUndefined | Some v \<Rightarrow> v)"

text \<open>\<^verbatim>\<open>x || null\<close>\<close>

definition or_null :: "jv \<Rightarrow> jv" where
  "or_null v = (if truthy v then v else JNull)"

text \<open>Rest destructuring \<^verbatim>\<open>const { k, ...rest } = o\<close>: every property but \<^verbatim>\<open>k\<close>.\<close>

definition omit :: "string \<Rightarrow> row \<Rightarrow> row" where
  "omit k r = filter (\<lambda>p. fst p \<noteq> k) r"

text \<open>
  The store is the hosted relational database behind the \<^verbatim>\<open>supabase\<close> client: a table
  name gives the rows of that table. The query builder's calls are functions on row lists.
  A store call fails here only for the reasons the relational model gives it (a constraint
  is violated, \<^verbatim>\<open>single()\<close> does not find exactly one row); network and permission
  failures are outside the model.
\<close>

type_synonym db = "string \<Rightarrow> row list"

definition notnull :: "jv \<Rightarrow> bool" where
  "notnull v = (v \<noteq> JNull \<and> v \<noteq> JUndefined)"

text \<open>\<^verbatim>\<open>.eq(column, value)\<close>: SQL equality, which no row satisfies for a null value.\<close>

definition eq_col :: "string \<Rightarrow> jv \<Rightarrow> row list \<Rightarrow> row list" where
  "eq_col c v rs = filter (\<lambda>r. notnull v \<and> fld r c = v) rs"

text \<open>\<^verbatim>\<open>.select('a, b')\<close>: the named columns of each row.\<close>

definition select_cols :: "string list \<Rightarrow> row list \<Rightarrow> row list" where
  "select_cols cs rs = map (filter (\<lambda>p. fst p \<in> set cs)) rs"

text \<open>
  \<^verbatim>\<open>.single()\<close> gives \<^verbatim>\<open>{data, error}\<close>: the row when exactly one row matches, otherwise
  no data and an error. \<^verbatim>\<open>.maybeSingle()\<close> accepts no row as well.
\<close>

definition single :: "row list \<Rightarrow> row option \<times> bool" where
  "single rs = (case rs of [r] \<Rightarrow> (Some r, False) | _ \<Rightarrow> (None, True))"


text \<open>\<^verbatim>\<open>.update(values).eq(...)\<close> and \<^verbatim>\<open>.delete().eq(...)\<close> on the rows a predicate selects.\<close>

definition assign :: "row \<Rightarrow> row \<Rightarrow> row" where
  "assign vals r = map (\<lambda>p. case map_of vals (fst p) of None \<Rightarrow> p | Some v \<Rightarrow> (fst p, v)) r
                   @ filter (\<lambda>p. fst p \<notin> fst ` set r) vals"

definition update_where :: "(row \<Rightarrow> bool) \<Rightarrow> row \<Rightarrow> row list \<Rightarrow> row list" where
  "update_where P vals rs = map (\<lambda>r. if P r then assign vals r else r) rs"

definition delete_where :: "(row \<Rightarrow> bool) \<Rightarrow> row list \<Rightarrow> row list" where
  "delete_where P rs = filter (\<lambda>r. \<not> P r) rs"

section \<open>Requests and responses\<close>

record request =
  authorization :: "string option"
  body :: row
  params :: row
  user :: "row option"

record response =
  status :: nat
  json :: row

text \<open>A middleware either answers the request or calls \<^verbatim>\<open>next()\<close> with the request.\<close>

datatype outcome = Respond response | Next request

section \<open>The middleware of auth.ts\<close>

text \<open>\<^verbatim>\<open>s.split(' ')\<close>\<close>

fun split_sp :: "string \<Rightarrow> string list" where
  "split_sp [] = [[]]"
| "split_sp (c # cs) =
     (if c = CHR '' '' then [] # split_sp cs
      else (case split_sp cs of [] \<Rightarrow> [[c]] | w # ws \<Rightarrow> (c # w) # ws))"

text \<open>
  \<^verbatim>\<open>authHeader && authHeader.split(' ')[1]\<close>: \<^verbatim>\<open>None\<close> is \<^verbatim>\<open>undefined\<close> (no header, or a
  header of one word), an empty header gives the empty string.
\<close>

definition bearer :: "string option \<Rightarrow> string option" where
  "bearer h = (case h of
       None \<Rightarrow> None
     | Some s \<Rightarrow> if s = [] then Some []
                else if 1 < length (split_sp s) then Some (split_sp s ! 1) else None)"

text \<open>
  \<^verbatim>\<open>jwt.verify(token, JWT_SECRET)\<close> belongs to the jsonwebtoken library; the middleware
  takes it as the function \<open>verify\<close>, which gives the decoded payload, or \<open>None\<close> where the
  library throws.
\<close>

definition authenticateToken :: "(string \<Rightarrow> row option) \<Rightarrow> db \<Rightarrow> request \<Rightarrow> outcome" where
  "authenticateToken verify d req =
     (case bearer (authorization req) of
        None \<Rightarrow> Respond \<lparr>status = 401, json = [(''error'', JStr ''Access token required'')]\<rparr>
      | Some token \<Rightarrow>
          if token = [] then
            Respond \<lparr>status = 401, json = [(''error'', JStr ''Access token required'')]\<rparr>
          else (case verify token of
             None \<Rightarrow> Respond \<lparr>status = 403, json = [(''error'', JStr ''Invalid or expired token'')]\<rparr>
           | Some decoded \<Rightarrow>
               (case single (eq_col ''id'' (fld decoded ''userId'') (d ''users'')) of
                  (None, _) \<Rightarrow> Respond \<lparr>status = 401, json = [(''error'', JStr ''Invalid token'')]\<rparr>
                | (Some u, error) \<Rightarrow>
                    if error then
                      Respond \<lparr>status = 401, json = [(''error'', JStr ''Invalid token'')]\<rparr>
                    else if \<not> truthy (fld u ''is_active'') then
                      Respond \<lparr>status = 403, json =
                        [(''error'', JStr ''Account is not active. Please contact administrator.'')]\<rparr>
                    else Next (req\<lparr>user := Some u\<rparr>))))"

definition authorizeRoles :: "jv list \<Rightarrow> request \<Rightarrow> outcome" where
  "authorizeRoles roles req =
     (case user req of
        None \<Rightarrow> Respond \<lparr>status = 401, json = [(''error'', JStr ''Authentication required'')]\<rparr>
      | Some u \<Rightarrow>
          if fld u ''role'' \<notin> set roles then
            Respond \<lparr>status = 403, json =
              [(''error'', JStr ''Access denied. Insufficient permissions.''),
               (''required'', JArr roles),
               (''current'', fld u ''role'')]\<rparr>
          else Next req)"

section \<open>The controllers' error answers\<close>

text \<open>
  A controller throws \<^verbatim>\<open>AppError(message, statusCode)\<close> and its catch block answers with
  that status and the body \<^verbatim>\<open>{success: false, error: message}\<close>; a handler returns the
  answer together with the store it leaves.
\<close>

definition err :: "nat \<Rightarrow> string \<Rightarrow> response" where
  "err code msg = \<lparr>status = code, json = [(''success'', JBool False), (''error'', JStr msg)]\<rparr>"

text \<open>
  \<^verbatim>\<open>deactivateUser\<close> of the admin controller: the guard against deactivating one's own
  account, then the update of \<^verbatim>\<open>is_active\<close> on the row with the id of the route. The
  update is kept only when it returns exactly one row.
\<close>

definition deactivateUser :: "db \<Rightarrow> request \<Rightarrow> response \<times> db" where
  "deactivateUser d req =
     (let id = fld (params req) ''id'' in
      if id = (case user req of None \<Rightarrow> JUndefined | Some u \<Rightarrow> fld u ''id'') then
        (err 400 ''Cannot deactivate your own account'', d)
      else
        (let d' = d(''users'' := update_where (\<lambda>r. notnull id \<and> fld r ''id'' = id)
                                  [(''is_active'', JBool False)] (d ''users''))
         in case single (select_cols [''id'', ''email'', ''first_name'', ''last_name'', ''is_active'']
                          (eq_col ''id'' id (d' ''users''))) of
              (Some r, False) \<Rightarrow>
                (\<lparr>status = 200, json = [(''success'', JBool True),
                    (''message'', JStr ''User deactivated successfully''), (''user'', JObj r)]\<rparr>, d')
            | _ \<Rightarrow> (err 500 ''Failed to deactivate user'', d)))"

section \<open>Column types of the store\<close>

text \<open>
  The migration declares its id columns as \<^verbatim>\<open>UUID\<close> and \<^verbatim>\<open>is_required\<close> as
  \<^verbatim>\<open>BOOLEAN\<close>. The store reads a value sent for such a column with the input function of
  the type and rejects the statement when the value cannot be read (SQLSTATE 22P02).

  A uuid is written as 32 hexadecimal digits, in either case, with an optional hyphen after
  any group of four digits and optional braces around the whole; it is read as the lower
  case digits in the groups 8-4-4-4-12. A boolean is \<^verbatim>\<open>true\<close> or \<^verbatim>\<open>false\<close>, the
  numbers 1 and 0, or one of the words the store accepts (a prefix of true, false, yes or
  no, or on, off, of, 1, 0, in either case, spaces around it ignored). Null, and a property
  that is not sent, are read as null by every type.
\<close>

datatype coltype = UUID | BOOLEAN

definition hex_digit :: "char \<Rightarrow> bool" where
  "hex_digit c = (c \<in> set ''0123456789abcdefABCDEF'')"

definition lower_char :: "char \<Rightarrow> char" where
  "lower_char c =
     (case map_of (zip ''ABCDEFGHIJKLMNOPQRSTUVWXYZ'' ''abcdefghijklmnopqrstuvwxyz'') c of
        None \<Rightarrow> c
      | Some l \<Rightarrow> l)"

definition skip_hyphen :: "string \<Rightarrow> string" where
  "skip_hyphen s = (case s of [] \<Rightarrow> [] | c # cs \<Rightarrow> if c = CHR ''-'' then cs else s)"

text \<open>\<open>uuid_groups k s\<close> reads \<open>k\<close> groups of four digits from \<open>s\<close>, which must end there.\<close>

fun uuid_groups :: "nat \<Rightarrow> string \<Rightarrow> string option" where
  "uuid_groups 0 s = (if s = [] then Some [] else None)"
| "uuid_groups (Suc k) (a # b # c # e # s) =
     (if hex_digit a \<and> hex_digit b \<and> hex_digit c \<and> hex_digit e then
        map_option (\<lambda>ds. map lower_char [a, b, c, e] @ ds)
          (uuid_groups k (if k = 0 then s else skip_hyphen s))
      else None)"
| "uuid_groups (Suc k) s = None"

definition unbrace :: "string \<Rightarrow> string option" where
  "unbrace s =
     (case s of
        [] \<Rightarrow> Some []
      | c # cs \<Rightarrow>
          if c = CHR ''{'' then
            (if cs \<noteq> [] \<and> last cs = CHR ''}'' then Some (butlast cs) else None)
          else Some s)"

definition uuid_text :: "string \<Rightarrow> string option" where
  "uuid_text s =
     (case unbrace s of
        None \<Rightarrow> None
      | Some u \<Rightarrow>
          map_option
            (\<lambda>ds. take 8 ds @ ''-'' @ take 4 (drop 8 ds) @ ''-'' @ take 4 (drop 12 ds) @ ''-''
                   @ take 4 (drop 16 ds) @ ''-'' @ drop 20 ds)
            (uuid_groups 8 u))"

definition space_char :: "char \<Rightarrow> bool" where
  "space_char c = (c \<in> set [CHR '' '', CHR 0x09, CHR 0x0A, CHR 0x0B, CHR 0x0C, CHR 0x0D])"

definition trim :: "string \<Rightarrow> string" where
  "trim s = rev (dropWhile space_char (rev (dropWhile space_char s)))"

definition bool_text :: "string \<Rightarrow> bool option" where
  "bool_text s =
     (let w = map lower_char (trim s)
      in if w \<in> set [''t'', ''tr'', ''tru'', ''true'', ''y'', ''ye'', ''yes'', ''on'', ''1''] then Some True
         else if w \<in> set [''f'', ''fa'', ''fal'', ''fals'', ''false'', ''n'', ''no'', ''of'', ''off'', ''0'']
         then Some False
         else None)"

text \<open>The value as the column type reads it; \<open>None\<close> when the type rejects it.\<close>

fun read_as :: "coltype \<Rightarrow> jv \<Rightarrow> jv option" where
  "read_as ty JUndefined = Some JNull"
| "read_as ty JNull = Some JNull"
| "read_as UUID (JStr s) = map_option JStr (uuid_text s)"
| "read_as UUID v = None"
| "read_as BOOLEAN (JBool b) = Some (JBool b)"
| "read_as BOOLEAN (JNum n) =
     (if n = 1 then Some (JBool True) else if n = 0 then Some (JBool False) else None)"
| "read_as BOOLEAN (JStr s) = map_option JBool (bool_text s)"
| "read_as BOOLEAN v = None"

text \<open>
  A column without a declared type takes every value and compares values as they are; a
  typed column compares values as the type reads them.
\<close>

definition same_value :: "coltype option \<Rightarrow> jv \<Rightarrow> jv \<Rightarrow> bool" where
  "same_value T a b = (case T of None \<Rightarrow> a = b | Some ty \<Rightarrow> read_as ty a = read_as ty b)"







section \<open>Constraints of the store, inserts and deletes\<close>

text \<open>
  The tables' constraints are declared in SQL. A schema gives, for a table, its unique
  keys (each a list of columns), its foreign keys (a column and the table whose
  \<^verbatim>\<open>id\<close> it references), the types of its typed columns and the columns declared
  \<^verbatim>\<open>NOT NULL\<close> (a primary key is one). The handlers take the schema as a parameter.
  Row level security and referential actions on delete are outside the model.
\<close>

record constraints =
  uniques :: "string list list"
  fks :: "(string \<times> string) list"
  types :: "(string \<times> coltype) list"
  not_null :: "string list"

type_synonym schema = "string \<Rightarrow> constraints"

definition col_type :: "schema \<Rightarrow> string \<Rightarrow> string \<Rightarrow> coltype option" where
  "col_type sch t c = map_of (types (sch t)) c"

text \<open>
  The part of the schema that academic\_structure\_migration.sql declares. Of the columns of
  \<^verbatim>\<open>academic_levels\<close> only the id is listed with its type: no modelled handler writes
  that table.
\<close>

definition migration_schema :: schema where
  "migration_schema t =
     (if t = ''academic_levels'' then
        \<lparr>uniques = [[''id''], [''name'']], fks = [], types = [(''id'', UUID)],
         not_null = [''id'', ''name'']\<rparr>
      else if t = ''subject_academic_levels'' then
        \<lparr>uniques = [[''id''], [''subject_id'', ''academic_level_id'']],
         fks = [(''subject_id'', ''subjects''), (''academic_level_id'', ''academic_levels'')],
         types = [(''id'', UUID), (''subject_id'', UUID), (''academic_level_id'', UUID),
                  (''is_required'', BOOLEAN)],
         not_null = [''id'']\<rparr>
      else \<lparr>uniques = [], fks = [], types = [], not_null = []\<rparr>)"

text \<open>
  A new row is rejected when a typed column cannot read its value (SQLSTATE 22P02), when a
  \<^verbatim>\<open>NOT NULL\<close> column gets no value (23502), when a stored row has the same non-null
  values in all columns of a unique key (23505), and when the non-null value of a foreign
  key is the id of no row of the referenced table (23503).
\<close>

definition typed_ok :: "schema \<Rightarrow> string \<Rightarrow> row \<Rightarrow> bool" where
  "typed_ok sch t r = list_all (\<lambda>(c, ty). read_as ty (fld r c) \<noteq> None) (types (sch t))"

definition lacks_value :: "schema \<Rightarrow> string \<Rightarrow> row \<Rightarrow> bool" where
  "lacks_value sch t r = list_ex (\<lambda>c. \<not> notnull (fld r c)) (not_null (sch t))"

definition same_key :: "schema \<Rightarrow> string \<Rightarrow> string list \<Rightarrow> row \<Rightarrow> row \<Rightarrow> bool" where
  "same_key sch t key r r' =
     list_all (\<lambda>c. notnull (fld r c) \<and> same_value (col_type sch t c) (fld r' c) (fld r c)) key"

definition dup_key :: "schema \<Rightarrow> db \<Rightarrow> string \<Rightarrow> row \<Rightarrow> bool" where
  "dup_key sch d t r = list_ex (\<lambda>key. list_ex (same_key sch t key r) (d t)) (uniques (sch t))"

text \<open>\<open>resolves T v rows\<close>: some row of \<open>rows\<close> has the id \<open>v\<close>, read as a column of type \<open>T\<close>.\<close>

definition resolves :: "coltype option \<Rightarrow> jv \<Rightarrow> row list \<Rightarrow> bool" where
  "resolves T v rows = list_ex (\<lambda>r'. same_value T (fld r' ''id'') v) rows"

definition dangling :: "schema \<Rightarrow> db \<Rightarrow> string \<Rightarrow> row \<Rightarrow> bool" where
  "dangling sch d t r =
     list_ex (\<lambda>(c, t'). notnull (fld r c) \<and> \<not> resolves (col_type sch t c) (fld r c) (d t'))
       (fks (sch t))"

text \<open>
  \<^verbatim>\<open>.insert(rows)\<close> is one statement. The values of all rows are read first. The rows are
  then written in order, each checked for missing values and against the unique keys as it
  is written; the foreign keys of all rows are checked when the statement ends. Either
  every row is stored, as it was sent, or the statement fails with the code of the
  violation and the caller keeps the store it had.
\<close>

fun store_rows :: "schema \<Rightarrow> db \<Rightarrow> string \<Rightarrow> row list \<Rightarrow> string + db" where
  "store_rows sch d t [] = Inr d"
| "store_rows sch d t (r # rs) =
     (if lacks_value sch t r then Inl ''23502''
      else if dup_key sch d t r then Inl ''23505''
      else store_rows sch (d(t := d t @ [r])) t rs)"

definition insert_rows :: "schema \<Rightarrow> db \<Rightarrow> string \<Rightarrow> row list \<Rightarrow> string + db" where
  "insert_rows sch d t rs =
     (if \<not> list_all (typed_ok sch t) rs then Inl ''22P02''
      else (case store_rows sch d t rs of
              Inl c \<Rightarrow> Inl c
            | Inr d' \<Rightarrow> if list_ex (dangling sch d' t) rs then Inl ''23503'' else Inr d'))"





section \<open>The HOD controller\<close>

text \<open>
  \<open>new_id\<close> is the id the store gives the inserted row (the column's default); columns
  the handlers never read, such as \<^verbatim>\<open>created_at\<close>, are left out of the rows.
\<close>

definition createSubject :: "schema \<Rightarrow> jv \<Rightarrow> db \<Rightarrow> request \<Rightarrow> response \<times> db" where
  "createSubject sch new_id d req =
     (let userId = (case user req of None \<Rightarrow> JUndefined | Some u \<Rightarrow> fld u ''id'');
          name = fld (body req) ''name'';
          code = fld (body req) ''code'';
          description = fld (body req) ''description''
      in case fst (single (select_cols [''id''] (eq_col ''hod_id'' userId (d ''departments'')))) of
           None \<Rightarrow> (err 404 ''Department not found'', d)
         | Some department \<Rightarrow>
             (let subject = [(''id'', new_id), (''name'', name), (''code'', code),
                             (''description'', description),
                             (''department_id'', fld department ''id'')]
              in case insert_rows sch d ''subjects'' [subject] of
                   Inl c \<Rightarrow>
                     if c = ''23505'' then (err 409 ''Subject with this code already exists'', d)
                     else (err 500 ''Failed to create subject'', d)
                 | Inr d' \<Rightarrow>
                     (\<lparr>status = 201, json = [(''success'', JBool True),
                         (''message'', JStr ''Subject created successfully''),
                         (''subject'', JObj subject)]\<rparr>, d')))"

section \<open>The admin controller: assignments and links\<close>






definition assignSubjectToAcademicLevel :: "schema \<Rightarrow> jv \<Rightarrow> db \<Rightarrow> request \<Rightarrow> response \<times> db" where
  "assignSubjectToAcademicLevel sch new_id d req =
     (let academic_level_id = fld (body req) ''academic_level_id'';
          subject_id = fld (body req) ''subject_id'';
          is_required = fld (body req) ''is_required''
      in if \<not> truthy academic_level_id \<or> \<not> truthy subject_id then
           (err 400 ''academic_level_id and subject_id are required'', d)
         else
           (let data = [(''id'', new_id), (''academic_level_id'', academic_level_id),
                        (''subject_id'', subject_id),
                        (''is_required'', if is_required \<noteq> JUndefined then is_required else JBool True)]
            in case insert_rows sch d ''subject_academic_levels'' [data] of
                 Inl c \<Rightarrow>
                   if c = ''23505'' then (err 409 ''Subject already assigned to this academic level'', d)
                   else (err 500 ''Failed to assign subject to academic level'', d)
               | Inr d' \<Rightarrow>
                   (\<lparr>status = 201, json = [(''success'', JBool True),
                       (''message'', JStr ''Subject assigned to academic level successfully''),
                       (''data'', JObj data)]\<rparr>, d')))"

section \<open>Tokens\<close>

text \<open>
  \<^verbatim>\<open>generateToken\<close> of auth.ts builds the payload and hands it to \<^verbatim>\<open>jwt.sign\<close> with the
  secret and the option \<^verbatim>\<open>expiresIn: '7d'\<close>. The library's function is the parameter
  \<open>sign\<close>; \<open>secret\<close> is \<^verbatim>\<open>JWT_SECRET\<close>, read from the environment at start-up.
\<close>

definition generateToken :: "(row \<Rightarrow> string \<Rightarrow> string \<Rightarrow> 'tok) \<Rightarrow> string \<Rightarrow> row \<Rightarrow> 'tok" where
  "generateToken sign secret u =
     (let payload = [(''userId'', fld u ''id''), (''email'', fld u ''email''), (''role'', fld u ''role'')]
      in sign payload secret ''7d'')"

text \<open>
  Modelled from the spec: the jsonwebtoken library's \<^verbatim>\<open>sign\<close> and \<^verbatim>\<open>verify\<close>, which
  are not among the sources. A token carries the payload with the issue and expiry times
  (seconds) and a signature, the value \<open>mac secret claims\<close> of a keyed hash \<open>mac\<close>; the
  encoding of the token as a string is left out. \<open>verify\<close> checks the signature and the
  expiry and has no effect; a token is expired from its expiry time on. A time span is a
  number followed by a unit, as in \<^verbatim>\<open>'7d'\<close>.
\<close>

definition digit_val :: "char \<Rightarrow> nat option" where
  "digit_val c = (let n = (of_char c :: nat) in if 48 \<le> n \<and> n \<le> 57 then Some (n - 48) else None)"

fun digits_val :: "nat \<Rightarrow> string \<Rightarrow> nat option" where
  "digits_val acc [] = Some acc"
| "digits_val acc (c # cs) =
     (case digit_val c of None \<Rightarrow> None | Some k \<Rightarrow> digits_val (10 * acc + k) cs)"

definition unit_seconds :: "char \<Rightarrow> nat option" where
  "unit_seconds c =
     (if c = CHR ''s'' then Some 1
      else if c = CHR ''m'' then Some 60
      else if c = CHR ''h'' then Some 3600
      else if c = CHR ''d'' then Some 86400
      else None)"

definition span_seconds :: "string \<Rightarrow> nat option" where
  "span_seconds s =
     (if length s < 2 then None
      else (case (digits_val 0 (butlast s), unit_seconds (last s)) of
              (Some n, Some k) \<Rightarrow> Some (n * k)
            | _ \<Rightarrow> None))"

type_synonym token = "row \<times> string"

definition jwt_sign :: "(string \<Rightarrow> row \<Rightarrow> string) \<Rightarrow> int \<Rightarrow> row \<Rightarrow> string \<Rightarrow> string \<Rightarrow> token option" where
  "jwt_sign mac now payload secret expiresIn =
     (case span_seconds expiresIn of
        None \<Rightarrow> None
      | Some span \<Rightarrow>
          (let claims = payload @ [(''iat'', JNum now), (''exp'', JNum (now + int span))]
           in Some (claims, mac secret claims)))"

definition jwt_verify :: "(string \<Rightarrow> row \<Rightarrow> string) \<Rightarrow> int \<Rightarrow> token \<Rightarrow> string \<Rightarrow> row option" where
  "jwt_verify mac now tok secret =
     (case tok of (claims, signature) \<Rightarrow>
        if signature \<noteq> mac secret claims then None
        else (case fld claims ''exp'' of
                JUndefined \<Rightarrow> Some claims
              | JNum e \<Rightarrow> if e \<le> now then None else Some claims
              | _ \<Rightarrow> None))"

section \<open>The auth controller\<close>

text \<open>
  Library functions are parameters: \<open>lower\<close> is \<^verbatim>\<open>String.prototype.toLowerCase\<close>,
  \<open>compare\<close> and \<open>hash\<close> are bcrypt's (\<open>None\<close> where bcrypt throws on an argument that is
  not a string), \<open>sign\<close> is \<^verbatim>\<open>jwt.sign\<close>. \<open>now_iso\<close> is \<^verbatim>\<open>new Date().toISOString()\<close>.
  An exception that is not an \<^verbatim>\<open>AppError\<close> ends in the handler's generic 500 answer.
\<close>

definition login ::
  "(string \<Rightarrow> string) \<Rightarrow> (jv \<Rightarrow> jv \<Rightarrow> bool option) \<Rightarrow> (row \<Rightarrow> string \<Rightarrow> string \<Rightarrow> string) \<Rightarrow>
   string \<Rightarrow> string \<Rightarrow> db \<Rightarrow> request \<Rightarrow> response \<times> db" where
  "login lower compare sign secret now_iso d req =
     (let email = fld (body req) ''email'';
          password = fld (body req) ''password''
      in if \<not> truthy email \<or> \<not> truthy password then
           (err 400 ''Email and password are required'', d)
         else (case email of
            JStr e \<Rightarrow>
              (case single (eq_col ''email'' (JStr (lower e)) (d ''users'')) of
                 (Some u, False) \<Rightarrow>
                   (case compare password (fld u ''password_hash'') of
                      None \<Rightarrow> (err 500 ''Login failed'', d)
                    | Some isPasswordValid \<Rightarrow>
                        if \<not> isPasswordValid then (err 401 ''Invalid email or password'', d)
                        else if \<not> truthy (fld u ''is_active'') then
                          (err 403 ''Your account is not active. Please contact the administrator.'', d)
                        else
                          (let d' = d(''users'' :=
                                 update_where (\<lambda>r. notnull (fld u ''id'') \<and> fld r ''id'' = fld u ''id'')
                                   [(''last_login'', JStr now_iso)] (d ''users''));
                               token = generateToken sign secret u;
                               userWithoutPassword = omit ''password_hash'' u
                           in (\<lparr>status = 200, json = [(''success'', JBool True),
                                  (''message'', JStr ''Login successful''),
                                  (''token'', JStr token),
                                  (''user'', JObj userWithoutPassword)]\<rparr>, d')))
               | _ \<Rightarrow> (err 401 ''Invalid email or password'', d))
          | _ \<Rightarrow> (err 500 ''Login failed'', d)))"

definition validRoles :: "jv list" where
  "validRoles = [JStr ''admin'', JStr ''headmaster'', JStr ''hod'', JStr ''teacher'',
                 JStr ''parent'', JStr ''student'']"

text \<open>
  The three role-profile blocks of \<^verbatim>\<open>register\<close>. Each gives \<open>Inr\<close> the profile row it
  created (or null) with the store, or \<open>Inl\<close> the store after the rollback, when the block
  throws. \<open>pid\<close> is the id the store gives the profile row, \<open>now_ms\<close> the digits of
  \<^verbatim>\<open>Date.now()\<close>, \<open>today\<close> the date part of \<^verbatim>\<open>new Date().toISOString()\<close>.
\<close>

definition rollback_user :: "db \<Rightarrow> row \<Rightarrow> db" where
  "rollback_user d newUser =
     d(''users'' := delete_where (\<lambda>r. notnull (fld newUser ''id'') \<and> fld r ''id'' = fld newUser ''id'')
                     (d ''users''))"

definition teacher_profile :: "schema \<Rightarrow> jv \<Rightarrow> string \<Rightarrow> string \<Rightarrow> row \<Rightarrow> row \<Rightarrow> db \<Rightarrow> db + db" where
  "teacher_profile sch pid now_ms today b newUser d =
     (let employeeNumber = ''TCH'' @ now_ms
      in case insert_rows sch d ''teachers''
                [[(''id'', pid), (''user_id'', fld newUser ''id''),
                  (''employee_number'', JStr employeeNumber),
                  (''department_id'', or_null (fld b ''department_id'')),
                  (''hire_date'', JStr today)]] of
           Inl c \<Rightarrow> Inl (rollback_user d newUser)
         | Inr d' \<Rightarrow> Inr d')"

definition student_profile ::
  "schema \<Rightarrow> jv \<Rightarrow> string \<Rightarrow> string \<Rightarrow> row \<Rightarrow> row \<Rightarrow> db \<Rightarrow> db + (row \<times> db)" where
  "student_profile sch pid now_ms today b newUser d =
     (let studentNumber = ''STU'' @ now_ms;
          student = [(''id'', pid), (''user_id'', fld newUser ''id''),
                     (''student_number'', JStr studentNumber),
                     (''class_id'', or_null (fld b ''class_id'')),
                     (''date_of_birth'', or_null (fld b ''date_of_birth'')),
                     (''gender'', or_null (fld b ''gender'')),
                     (''address'', or_null (fld b ''address'')),
                     (''enrollment_date'', JStr today)]
      in case insert_rows sch d ''students'' [student] of
           Inl c \<Rightarrow> Inl (rollback_user d newUser)
         | Inr d' \<Rightarrow> Inr (student, d'))"

definition parent_profile :: "schema \<Rightarrow> jv \<Rightarrow> row \<Rightarrow> row \<Rightarrow> db \<Rightarrow> db + (row \<times> db)" where
  "parent_profile sch pid b newUser d =
     (let parent = [(''id'', pid), (''user_id'', fld newUser ''id''),
                    (''relationship'', or_null (fld b ''relationship'')),
                    (''occupation'', or_null (fld b ''occupation''))]
      in case insert_rows sch d ''parents'' [parent] of
           Inl c \<Rightarrow> Inl (rollback_user d newUser)
         | Inr d' \<Rightarrow> Inr (parent, d'))"

text \<open>\<^verbatim>\<open>data?.id || null\<close>\<close>

definition id_or_null :: "row option \<Rightarrow> jv" where
  "id_or_null data = (case data of None \<Rightarrow> JNull | Some r \<Rightarrow> or_null (fld r ''id''))"

text \<open>
  \<^verbatim>\<open>register\<close> after its guards: the user row has been inserted as \<open>newUser\<close>, the blocks
  for the three roles follow in the order of the source.
\<close>

definition register_profiles ::
  "schema \<Rightarrow> jv \<Rightarrow> string \<Rightarrow> string \<Rightarrow> row \<Rightarrow> row \<Rightarrow> db \<Rightarrow> response \<times> db" where
  "register_profiles sch pid now_ms today b newUser d1 =
     (let role = fld b ''role'' in
      case (if role = JStr ''teacher'' then teacher_profile sch pid now_ms today b newUser d1
            else Inr d1) of
        Inl dr \<Rightarrow> (err 500 ''Failed to create teacher profile'', dr)
      | Inr d2 \<Rightarrow>
          (case (if role = JStr ''student''
                 then map_sum id (\<lambda>(s, d'). (Some s, d')) (student_profile sch pid now_ms today b newUser d2)
                 else Inr (None, d2)) of
             Inl dr \<Rightarrow> (err 500 ''Failed to create student profile'', dr)
           | Inr (studentData, d3) \<Rightarrow>
               (case (if role = JStr ''parent''
                      then map_sum id (\<lambda>(p, d'). (Some p, d')) (parent_profile sch pid b newUser d3)
                      else Inr (None, d3)) of
                  Inl dr \<Rightarrow> (err 500 ''Failed to create parent profile'', dr)
                | Inr (parentData, d4) \<Rightarrow>
                    (let userWithoutPassword = omit ''password_hash'' newUser
                     in (\<lparr>status = 201, json = [(''success'', JBool True),
                            (''message'', JStr ''User registered successfully''),
                            (''user'', JObj userWithoutPassword),
                            (''student_id'', id_or_null studentData),
                            (''parent_id'', id_or_null parentData)]\<rparr>, d4)))))"

text \<open>\<open>uid\<close> is the id the store gives the new user row.\<close>

definition register ::
  "(string \<Rightarrow> string) \<Rightarrow> (jv \<Rightarrow> string option) \<Rightarrow> schema \<Rightarrow> jv \<Rightarrow> jv \<Rightarrow> string \<Rightarrow> string \<Rightarrow>
   db \<Rightarrow> request \<Rightarrow> response \<times> db" where
  "register lower hash sch uid pid now_ms today d req =
     (let b = body req;
          email = fld b ''email''; password = fld b ''password''; role = fld b ''role'';
          first_name = fld b ''first_name''; last_name = fld b ''last_name''; phone = fld b ''phone''
      in if (case user req of None \<Rightarrow> JUndefined | Some u \<Rightarrow> fld u ''role'') \<noteq> JStr ''admin'' then
           (err 403 ''Only administrators can register new users'', d)
         else if \<not> truthy email \<or> \<not> truthy password \<or> \<not> truthy role \<or> \<not> truthy first_name
                 \<or> \<not> truthy last_name then
           (err 400 ''Required fields: email, password, role, first_name, last_name'', d)
         else if role \<notin> set validRoles then (err 400 ''Invalid role'', d)
         else (case email of
            JStr e \<Rightarrow>
              if fst (single (select_cols [''id''] (eq_col ''email'' (JStr (lower e)) (d ''users'')))) \<noteq> None
              then (err 409 ''User with this email already exists'', d)
              else (case hash password of
                 None \<Rightarrow> (err 500 ''Registration failed'', d)
               | Some hashedPassword \<Rightarrow>
                   (let newUser = [(''id'', uid), (''email'', JStr (lower e)),
                                   (''password_hash'', JStr hashedPassword), (''role'', role),
                                   (''first_name'', first_name), (''last_name'', last_name),
                                   (''phone'', phone), (''is_active'', JBool True)]
                    in case insert_rows sch d ''users'' [newUser] of
                         Inl c \<Rightarrow> (err 500 ''Failed to create user'', d)
                       | Inr d1 \<Rightarrow> register_profiles sch pid now_ms today b newUser d1))
          | _ \<Rightarrow> (err 500 ''Registration failed'', d)))"

section \<open>Role profiles\<close>

text \<open>
  The table that holds the profile rows of a role, and the property of a store that every
  user with such a role has a profile row that refers to it.
\<close>

definition profile_table :: "jv \<Rightarrow> string option" where
  "profile_table role =
     (if role = JStr ''teacher'' then Some ''teachers''
      else if role = JStr ''student'' then Some ''students''
      else if role = JStr ''parent'' then Some ''parents''
      else None)"

definition profiled :: "db \<Rightarrow> bool" where
  "profiled d =
     list_all (\<lambda>u. case profile_table (fld u ''role'') of
                      None \<Rightarrow> True
                    | Some t \<Rightarrow> list_ex (\<lambda>p. fld p ''user_id'' = fld u ''id'') (d t))
       (d ''users'')"

text \<open>
  The guards of \<^verbatim>\<open>register\<close>, up to the insert of the user row: the caller is an admin,
  the required fields are there, the role is one of the six, the e-mail is the string \<open>e\<close>
  and no stored user has it in lower case, and the password hashes to \<open>h\<close>.
\<close>

definition admitted ::
  "(string \<Rightarrow> string) \<Rightarrow> (jv \<Rightarrow> string option) \<Rightarrow> db \<Rightarrow> request \<Rightarrow> string \<Rightarrow> string \<Rightarrow> bool" where
  "admitted lower hash d req e h =
     ((case user req of None \<Rightarrow> JUndefined | Some u \<Rightarrow> fld u ''role'') = JStr ''admin''
      \<and> truthy (fld (body req) ''email'') \<and> truthy (fld (body req) ''password'')
      \<and> truthy (fld (body req) ''role'') \<and> truthy (fld (body req) ''first_name'')
      \<and> truthy (fld (body req) ''last_name'')
      \<and> fld (body req) ''role'' \<in> set validRoles
      \<and> fld (body req) ''email'' = JStr e
      \<and> fst (single (select_cols [''id''] (eq_col ''email'' (JStr (lower e)) (d ''users'')))) = None
      \<and> hash (fld (body req) ''password'') = Some h)"

text \<open>The store takes the row: the insert of this one row does not fail.\<close>

definition accepted :: "schema \<Rightarrow> db \<Rightarrow> string \<Rightarrow> row \<Rightarrow> bool" where
  "accepted sch d t r = (case insert_rows sch d t [r] of Inl c \<Rightarrow> False | Inr d' \<Rightarrow> True)"

section \<open>A small school, for concrete runs\<close>

text \<open>
  Modelled from the spec: schema.sql is not among the sources, so the constraints of the
  tables the migration does not declare are taken from the error handling of the handlers
  and from the spec (a subject code and a user email are unique, a parent-student pair is
  unique, a profile row references a department or a class).
\<close>

definition school_schema :: schema where
  "school_schema t =
     (if t = ''users'' then
        \<lparr>uniques = [[''id''], [''email'']], fks = [], types = [], not_null = []\<rparr>
      else if t = ''subjects'' then
        \<lparr>uniques = [[''id''], [''code'']], fks = [(''department_id'', ''departments'')],
         types = [], not_null = []\<rparr>
      else if t = ''student_parents'' then
        \<lparr>uniques = [[''id''], [''parent_id'', ''student_id'']], fks = [(''parent_id'', ''parents'')],
         types = [], not_null = []\<rparr>
      else if t = ''teachers'' then
        \<lparr>uniques = [[''id''], [''user_id'']], fks = [(''department_id'', ''departments'')],
         types = [], not_null = []\<rparr>
      else if t = ''students'' then
        \<lparr>uniques = [[''id''], [''user_id'']], fks = [(''class_id'', ''classes'')],
         types = [], not_null = []\<rparr>
      else if t = ''parents'' then
        \<lparr>uniques = [[''id''], [''user_id'']], fks = [], types = [], not_null = []\<rparr>
      else migration_schema t)"

definition school :: db where
  "school t =
     (if t = ''users'' then
        [[(''id'', JStr ''a1''), (''email'', JStr ''head@school''), (''password_hash'', JStr ''#a''),
          (''role'', JStr ''admin''), (''is_active'', JBool True)],
         [(''id'', JStr ''h1''), (''email'', JStr ''hod@school''), (''password_hash'', JStr ''#h''),
          (''role'', JStr ''hod''), (''is_active'', JBool True)],
         [(''id'', JStr ''t1''), (''email'', JStr ''ann@school''), (''password_hash'', JStr ''#t''),
          (''role'', JStr ''teacher''), (''is_active'', JBool True)],
         [(''id'', JStr ''t2''), (''email'', JStr ''bob@school''), (''password_hash'', JStr ''#b''),
          (''role'', JStr ''teacher''), (''is_active'', JBool False)]]
      else if t = ''teachers'' then
        [[(''id'', JStr ''tp1''), (''user_id'', JStr ''t1'')],
         [(''id'', JStr ''tp2''), (''user_id'', JStr ''t2'')]]
      else if t = ''departments'' then
        [[(''id'', JStr ''d1''), (''name'', JStr ''Science''), (''hod_id'', JStr ''h1'')],
         [(''id'', JStr ''d2''), (''name'', JStr ''Arts''), (''hod_id'', JNull)]]
      else if t = ''subjects'' then
        [[(''id'', JStr ''s1''), (''name'', JStr ''Physics''), (''code'', JStr ''PHY''),
          (''department_id'', JStr ''d1'')]]
      else if t = ''classes'' then
        [[(''id'', JStr ''c1''), (''name'', JStr ''Form 1A''), (''level'', JStr ''Form 1'')]]
      else if t = ''parents'' then
        [[(''id'', JStr ''p1''), (''user_id'', JStr ''u9'')]]
      else if t = ''student_parents'' then
        [[(''id'', JStr ''l1''), (''parent_id'', JStr ''p1''), (''student_id'', JStr ''k1'')]]
      else if t = ''academic_levels'' then
        [[(''id'', JStr ''f1''), (''name'', JStr ''Form 1'')]]
      else [])"

text \<open>
  A verifier that accepts two tokens: \<^verbatim>\<open>tok\<close>, issued to the teacher \<^verbatim>\<open>t1\<close>, and
  \<^verbatim>\<open>old\<close>, issued to the teacher \<^verbatim>\<open>t2\<close> before that account was deactivated.
\<close>

definition school_verify :: "string \<Rightarrow> row option" where
  "school_verify token =
     (if token = ''tok'' then
        Some [(''userId'', JStr ''t1''), (''email'', JStr ''ann@school''), (''role'', JStr ''teacher'')]
      else if token = ''old'' then
        Some [(''userId'', JStr ''t2''), (''email'', JStr ''bob@school''), (''role'', JStr ''teacher'')]
      else None)"

definition bearer_tok :: request where
  "bearer_tok = \<lparr>authorization = Some ''Bearer tok'', body = [], params = [], user = None\<rparr>"

text \<open>The admin \<^verbatim>\<open>a1\<close>, authenticated, with a request body and route parameters.\<close>

definition as_admin :: "row \<Rightarrow> row \<Rightarrow> request" where
  "as_admin b ps = \<lparr>authorization = None, body = b, params = ps,
     user = Some [(''id'', JStr ''a1''), (''email'', JStr ''head@school''), (''password_hash'', JStr ''#a''),
                  (''role'', JStr ''admin''), (''is_active'', JBool True)]\<rparr>"

text \<open>The head of department \<^verbatim>\<open>h1\<close>, authenticated, with a request body.\<close>

definition as_hod :: "row \<Rightarrow> request" where
  "as_hod b = \<lparr>authorization = None, body = b, params = [],
     user = Some [(''id'', JStr ''h1''), (''email'', JStr ''hod@school''), (''password_hash'', JStr ''#h''),
                  (''role'', JStr ''hod''), (''is_active'', JBool True)]\<rparr>"

text \<open>
  For concrete runs: a password hash that puts a mark before the password, the matching
  comparison, and the body that registers the teacher Carl in a department.
\<close>

definition toy_hash :: "jv \<Rightarrow> string option" where
  "toy_hash p = (case p of JStr s \<Rightarrow> Some (''#'' @ s) | _ \<Rightarrow> None)"

definition toy_compare :: "jv \<Rightarrow> jv \<Rightarrow> bool option" where
  "toy_compare p h = (case toy_hash p of None \<Rightarrow> None | Some x \<Rightarrow> Some (h = JStr x))"

definition carl :: "string \<Rightarrow> row" where
  "carl dep = [(''email'', JStr ''carl@school''), (''password'', JStr ''pw''), (''role'', JStr ''teacher''),
               (''first_name'', JStr ''Carl''), (''last_name'', JStr ''Zed''),
               (''department_id'', JStr dep)]"

text \<open>The bodies that register the student Dora in a class and the parent Emma.\<close>

definition dora :: "string \<Rightarrow> row" where
  "dora cls = [(''email'', JStr ''dora@school''), (''password'', JStr ''pw''), (''role'', JStr ''student''),
               (''first_name'', JStr ''Dora''), (''last_name'', JStr ''Young''),
               (''class_id'', JStr cls)]"

definition emma :: row where
  "emma = [(''email'', JStr ''emma@school''), (''password'', JStr ''pw''), (''role'', JStr ''parent''),
           (''first_name'', JStr ''Emma''), (''last_name'', JStr ''Xu''),
           (''relationship'', JStr ''mother'')]"

text \<open>
  The admin registers the body \<open>b\<close> in the school; the store hands out \<^verbatim>\<open>u5\<close> for the
  user row and \<open>pid\<close> for the profile row.
\<close>

definition enrol :: "jv \<Rightarrow> row \<Rightarrow> response \<times> db" where
  "enrol pid b = register (\<lambda>s. s) toy_hash school_schema (JStr ''u5'') pid ''1700000000000''
                   ''2026-01-05'' school (as_admin b [])"

text \<open>A second store, whose ids are uuids as the migration declares them.\<close>

definition id_of :: "string \<Rightarrow> jv" where
  "id_of s = JStr (''00000000-0000-0000-0000-0000000000'' @ s)"

definition academy :: db where
  "academy t =
     (if t = ''subjects'' then
        [[(''id'', id_of ''51''), (''name'', JStr ''Physics''), (''code'', JStr ''PHY'')]]
      else if t = ''academic_levels'' then
        [[(''id'', id_of ''f1''), (''name'', JStr ''Form 1'')]]
      else if t = ''parents'' then
        [[(''id'', id_of ''b1'')]]
      else if t = ''student_parents'' then
        [[(''id'', id_of ''c1''), (''parent_id'', id_of ''b1''), (''student_id'', id_of ''d1'')]]
      else [])"


text \<open>A keyed hash for concrete runs: the secret followed by the names of the claims.\<close>

definition toy_mac :: "string \<Rightarrow> row \<Rightarrow> string" where
  "toy_mac secret claims = secret @ concat (map fst claims)"

section \<open>Facts about rows and queries\<close>

lemma map_of_assign_map:
  "map_of (map (\<lambda>p. case map_of vals (fst p) of None \<Rightarrow> p | Some v \<Rightarrow> (fst p, v)) r) k
     = (case map_of r k of
          None \<Rightarrow> None
        | Some w \<Rightarrow> (case map_of vals k of None \<Rightarrow> Some w | Some v \<Rightarrow> Some v))"
  by (induction r) (auto split: option.splits)

lemma map_of_assign_rest:
  "map_of r k = None \<Longrightarrow> map_of (filter (\<lambda>p. fst p \<notin> fst ` set r) vals) k = map_of vals k"
  by (induction vals) (auto simp: map_of_eq_None_iff)

lemma fld_assign: "fld (assign vals r) k = (case map_of vals k of None \<Rightarrow> fld r k | Some v \<Rightarrow> v)"
  by (auto simp: fld_def assign_def map_add_def map_of_assign_map map_of_assign_rest
           split: option.splits)

lemma truthy_notnull: "truthy v \<Longrightarrow> notnull v"
  by (cases v) (simp_all add: notnull_def)

lemma fld_cons: "fld ((k, v) # r) c = (if c = k then v else fld r c)"
  by (simp add: fld_def)

lemma single_one: "single [r] = (Some r, False)"
  by (simp add: single_def)

lemma fld_nil: "fld [] c = JUndefined"
  by (simp add: fld_def)

lemma body_as_admin: "body (as_admin b ps) = b"
  by (simp add: as_admin_def)

section \<open>The session resolver\<close>

lemma eq_col_deactivate:
  "eq_col ''id'' v (update_where (\<lambda>r. notnull v \<and> fld r ''id'' = v) [(''is_active'', JBool False)] rs)
     = map (assign [(''is_active'', JBool False)]) (eq_col ''id'' v rs)"
  by (induction rs) (auto simp: eq_col_def update_where_def fld_assign)

lemma authenticate_disabled:
  assumes "bearer (authorization req) = Some token" "token \<noteq> []" "verify token = Some decoded"
    and "single (eq_col ''id'' (fld decoded ''userId'') (d ''users'')) = (Some u, False)"
    and "\<not> truthy (fld u ''is_active'')"
  shows "authenticateToken verify d req =
           Respond \<lparr>status = 403, json =
             [(''error'', JStr ''Account is not active. Please contact administrator.'')]\<rparr>"
  using assms by (simp add: authenticateToken_def)

lemma deactivate_store:
  assumes "fld (params areq) ''id'' = uid" "eq_col ''id'' uid (d ''users'') = [u]"
    and "(case user areq of None \<Rightarrow> JUndefined | Some a \<Rightarrow> fld a ''id'') \<noteq> uid"
  shows "eq_col ''id'' uid (snd (deactivateUser d areq) ''users'')
           = [assign [(''is_active'', JBool False)] u]"
  using assms
  by (simp add: deactivateUser_def Let_def eq_col_deactivate select_cols_def single_def)

text \<open>
  C1. A request whose token verifies is answered 403 "Account is not active" and never
  reaches \<^verbatim>\<open>next()\<close> when the user row fetched by the token's \<^verbatim>\<open>userId\<close> is not active,
  whatever role and e-mail the payload carries. In particular, once an admin has
  deactivated an existing user through \<^verbatim>\<open>deactivateUser\<close>, the next request with a token
  that still verifies for that user is answered so.
\<close>

theorem disabled_account_rejected:
  assumes "bearer (authorization req) = Some token" "token \<noteq> []" "verify token = Some decoded"
  shows "(single (eq_col ''id'' (fld decoded ''userId'') (d ''users'')) = (Some u, False)
            \<and> \<not> truthy (fld u ''is_active'')
          \<longrightarrow> authenticateToken verify d req =
                Respond \<lparr>status = 403, json =
                  [(''error'', JStr ''Account is not active. Please contact administrator.'')]\<rparr>)
       \<and> (eq_col ''id'' (fld decoded ''userId'') (d ''users'') = [u]
            \<and> fld (params areq) ''id'' = fld decoded ''userId''
            \<and> (case user areq of None \<Rightarrow> JUndefined | Some a \<Rightarrow> fld a ''id'') \<noteq> fld decoded ''userId''
          \<longrightarrow> authenticateToken verify (snd (deactivateUser d areq)) req =
                Respond \<lparr>status = 403, json =
                  [(''error'', JStr ''Account is not active. Please contact administrator.'')]\<rparr>)"
proof (intro conjI impI)
  assume "single (eq_col ''id'' (fld decoded ''userId'') (d ''users'')) = (Some u, False)
            \<and> \<not> truthy (fld u ''is_active'')"
  then show "authenticateToken verify d req =
                Respond \<lparr>status = 403, json =
                  [(''error'', JStr ''Account is not active. Please contact administrator.'')]\<rparr>"
    using assms by (simp add: authenticate_disabled)
next
  assume h: "eq_col ''id'' (fld decoded ''userId'') (d ''users'') = [u]
            \<and> fld (params areq) ''id'' = fld decoded ''userId''
            \<and> (case user areq of None \<Rightarrow> JUndefined | Some a \<Rightarrow> fld a ''id'') \<noteq> fld decoded ''userId''"
  let ?d' = "snd (deactivateUser d areq)"
  let ?u' = "assign [(''is_active'', JBool False)] u"
  from h have "eq_col ''id'' (fld decoded ''userId'') (?d' ''users'') = [?u']"
    by (intro deactivate_store) simp_all
  then have "single (eq_col ''id'' (fld decoded ''userId'') (?d' ''users'')) = (Some ?u', False)"
    by (simp add: single_one)
  moreover have "\<not> truthy (fld ?u' ''is_active'')"
    by (simp add: fld_assign)
  ultimately show "authenticateToken verify ?d' req =
                Respond \<lparr>status = 403, json =
                  [(''error'', JStr ''Account is not active. Please contact administrator.'')]\<rparr>"
    using assms by (intro authenticate_disabled) simp_all
qed

lemma school_t1:
  "eq_col ''id'' (JStr ''t1'') (school ''users'') =
     [[(''id'', JStr ''t1''), (''email'', JStr ''ann@school''), (''password_hash'', JStr ''#t''),
       (''role'', JStr ''teacher''), (''is_active'', JBool True)]]"
  by (simp add: eq_col_def school_def fld_def notnull_def)

lemma school_t2:
  "eq_col ''id'' (JStr ''t2'') (school ''users'') =
     [[(''id'', JStr ''t2''), (''email'', JStr ''bob@school''), (''password_hash'', JStr ''#b''),
       (''role'', JStr ''teacher''), (''is_active'', JBool False)]]"
  by (simp add: eq_col_def school_def fld_def notnull_def)

lemma bearer_word: "bearer (Some ''Bearer tok'') = Some ''tok''" "bearer (Some ''Bearer old'') = Some ''old''"
  by (simp_all add: bearer_def)

text \<open>
  In the school, the token of the active teacher \<^verbatim>\<open>t1\<close> passes; the token of the
  inactive teacher \<^verbatim>\<open>t2\<close> is answered 403; and after the admin has deactivated \<^verbatim>\<open>t1\<close>
  the same token of \<^verbatim>\<open>t1\<close> is answered 403 as well.
\<close>

theorem disabled_account_rejected_witness:
  "authenticateToken school_verify school bearer_tok =
     Next (bearer_tok\<lparr>user := Some [(''id'', JStr ''t1''), (''email'', JStr ''ann@school''),
       (''password_hash'', JStr ''#t''), (''role'', JStr ''teacher''), (''is_active'', JBool True)]\<rparr>)
   \<and> authenticateToken school_verify school (bearer_tok\<lparr>authorization := Some ''Bearer old''\<rparr>) =
       Respond \<lparr>status = 403, json =
         [(''error'', JStr ''Account is not active. Please contact administrator.'')]\<rparr>
   \<and> authenticateToken school_verify
         (snd (deactivateUser school (as_admin [] [(''id'', JStr ''t1'')]))) bearer_tok =
       Respond \<lparr>status = 403, json =
         [(''error'', JStr ''Account is not active. Please contact administrator.'')]\<rparr>"
proof (intro conjI)
  show "authenticateToken school_verify school bearer_tok =
     Next (bearer_tok\<lparr>user := Some [(''id'', JStr ''t1''), (''email'', JStr ''ann@school''),
       (''password_hash'', JStr ''#t''), (''role'', JStr ''teacher''), (''is_active'', JBool True)]\<rparr>)"
    by (simp add: authenticateToken_def bearer_tok_def bearer_word school_verify_def school_t1
          fld_def single_def)
next
  show "authenticateToken school_verify school (bearer_tok\<lparr>authorization := Some ''Bearer old''\<rparr>) =
       Respond \<lparr>status = 403, json =
         [(''error'', JStr ''Account is not active. Please contact administrator.'')]\<rparr>"
    using disabled_account_rejected
      [of "bearer_tok\<lparr>authorization := Some ''Bearer old''\<rparr>" "''old''" school_verify
          "[(''userId'', JStr ''t2''), (''email'', JStr ''bob@school''), (''role'', JStr ''teacher'')]"
          school
          "[(''id'', JStr ''t2''), (''email'', JStr ''bob@school''), (''password_hash'', JStr ''#b''),
            (''role'', JStr ''teacher''), (''is_active'', JBool False)]"]
    by (simp add: bearer_word school_verify_def fld_def school_t2 single_def)
next
  show "authenticateToken school_verify
         (snd (deactivateUser school (as_admin [] [(''id'', JStr ''t1'')]))) bearer_tok =
       Respond \<lparr>status = 403, json =
         [(''error'', JStr ''Account is not active. Please contact administrator.'')]\<rparr>"
    using disabled_account_rejected
      [of bearer_tok "''tok''" school_verify
          "[(''userId'', JStr ''t1''), (''email'', JStr ''ann@school''), (''role'', JStr ''teacher'')]"
          school
          "[(''id'', JStr ''t1''), (''email'', JStr ''ann@school''), (''password_hash'', JStr ''#t''),
            (''role'', JStr ''teacher''), (''is_active'', JBool True)]"
          "as_admin [] [(''id'', JStr ''t1'')]"]
    by (simp add: bearer_tok_def bearer_word school_verify_def fld_def school_t1 as_admin_def)
qed

section \<open>The role gate\<close>

text \<open>
  C7. \<^verbatim>\<open>authorizeRoles\<close> calls \<^verbatim>\<open>next()\<close> exactly when the request carries a resolved user
  whose role is in the allow-list, for every role value and every allow-list. A user whose
  role is not in the list is answered 403 with the list under \<^verbatim>\<open>required\<close> and the
  user's role under \<^verbatim>\<open>current\<close>; a request without a resolved user is answered 401.
\<close>

theorem authorize_exactly_allowed:
  "((\<exists>r. authorizeRoles roles req = Next r)
      \<longleftrightarrow> (\<exists>u. user req = Some u \<and> fld u ''role'' \<in> set roles))
   \<and> (\<forall>u. user req = Some u \<and> fld u ''role'' \<notin> set roles \<longrightarrow>
         authorizeRoles roles req = Respond \<lparr>status = 403, json =
           [(''error'', JStr ''Access denied. Insufficient permissions.''),
            (''required'', JArr roles),
            (''current'', fld u ''role'')]\<rparr>)
   \<and> (user req = None \<longrightarrow>
         authorizeRoles roles req =
           Respond \<lparr>status = 401, json = [(''error'', JStr ''Authentication required'')]\<rparr>)
   \<and> (\<forall>r. authorizeRoles roles req = Next r \<longrightarrow> r = req)"
  by (auto simp: authorizeRoles_def split: option.splits)

text \<open>
  On the admin routes (allow-list \<^verbatim>\<open>['admin']\<close>) the admin passes, the head of department
  is answered 403 with both roles named, and a request without a user is answered 401.
\<close>

theorem authorize_exactly_allowed_witness:
  "authorizeRoles [JStr ''admin''] (as_admin [] []) = Next (as_admin [] [])
   \<and> authorizeRoles [JStr ''admin''] (as_hod []) = Respond \<lparr>status = 403, json =
        [(''error'', JStr ''Access denied. Insufficient permissions.''),
         (''required'', JArr [JStr ''admin'']),
         (''current'', JStr ''hod'')]\<rparr>
   \<and> authorizeRoles [JStr ''admin''] bearer_tok =
        Respond \<lparr>status = 401, json = [(''error'', JStr ''Authentication required'')]\<rparr>"
proof -
  have a: "fld (the (user (as_admin [] []))) ''role'' = JStr ''admin''"
    and h: "fld (the (user (as_hod []))) ''role'' = JStr ''hod''"
    by (simp_all add: as_admin_def as_hod_def fld_def)
  have "\<exists>r. authorizeRoles [JStr ''admin''] (as_admin [] []) = Next r"
    using authorize_exactly_allowed [of "[JStr ''admin'']" "as_admin [] []"] a
    by (simp add: as_admin_def)
  then have 1: "authorizeRoles [JStr ''admin''] (as_admin [] []) = Next (as_admin [] [])"
    using authorize_exactly_allowed [of "[JStr ''admin'']" "as_admin [] []"] by blast
  have 2: "authorizeRoles [JStr ''admin''] (as_hod []) = Respond \<lparr>status = 403, json =
        [(''error'', JStr ''Access denied. Insufficient permissions.''),
         (''required'', JArr [JStr ''admin'']),
         (''current'', JStr ''hod'')]\<rparr>"
    using authorize_exactly_allowed [of "[JStr ''admin'']" "as_hod []"] h
    by (simp add: as_hod_def)
  have 3: "authorizeRoles [JStr ''admin''] bearer_tok =
        Respond \<lparr>status = 401, json = [(''error'', JStr ''Authentication required'')]\<rparr>"
    using authorize_exactly_allowed [of "[JStr ''admin'']" bearer_tok]
    by (simp add: bearer_tok_def)
  from 1 2 3 show ?thesis by simp
qed

section \<open>Bodies of the middleware's rejections\<close>

text \<open>
  C8. README.md documents that every error has the body \<^verbatim>\<open>{success: false, error}\<close>.
  The middleware's rejections carry no \<^verbatim>\<open>success\<close> property: a request with no
  Authorization header is answered 401 with the body \<^verbatim>\<open>{error: "Access token required"}\<close>,
  and one whose token does not verify 403 with \<^verbatim>\<open>{error: "Invalid or expired token"}\<close>.
\<close>

theorem rejection_bodies_lack_success:
  "authenticateToken school_verify school
       \<lparr>authorization = None, body = [], params = [], user = None\<rparr> =
     Respond \<lparr>status = 401, json = [(''error'', JStr ''Access token required'')]\<rparr>
   \<and> authenticateToken school_verify school
       \<lparr>authorization = Some ''Bearer stale'', body = [], params = [], user = None\<rparr> =
     Respond \<lparr>status = 403, json = [(''error'', JStr ''Invalid or expired token'')]\<rparr>
   \<and> fld [(''error'', JStr ''Access token required'')] ''success'' = JUndefined
   \<and> fld [(''error'', JStr ''Invalid or expired token'')] ''success'' = JUndefined"
  by (simp add: authenticateToken_def bearer_def school_verify_def fld_def)

section \<open>Facts about inserts\<close>


lemma insert_one:
  "insert_rows sch d t [r] =
     (if \<not> typed_ok sch t r then Inl ''22P02''
      else if lacks_value sch t r then Inl ''23502''
      else if dup_key sch d t r then Inl ''23505''
      else if dangling sch (d(t := d t @ [r])) t r then Inl ''23503''
      else Inr (d(t := d t @ [r])))"
  by (simp add: insert_rows_def)


section \<open>Assigning a teacher to a subject in a class\<close>









section \<open>Creating a subject as head of department\<close>

lemma single_select_id:
  "fst (single (select_cols cs rs)) = (case rs of [r] \<Rightarrow> Some (filter (\<lambda>p. fst p \<in> set cs) r) | _ \<Rightarrow> None)"
  by (cases rs; cases "tl rs") (auto simp: single_def select_cols_def)

lemma fld_filter_col: "fld (filter (\<lambda>p. fst p = c) r) c = fld r c"
  by (induction r) (auto simp: fld_def)

text \<open>
  C2, as the code has it. \<^verbatim>\<open>createSubject\<close> reads only \<^verbatim>\<open>name\<close>, \<^verbatim>\<open>code\<close> and
  \<^verbatim>\<open>description\<close> from the body, so two bodies that agree on these give the same result:
  a \<^verbatim>\<open>department_id\<close> in the body is neither obeyed nor rejected. A caller who heads
  exactly one department gets the subject stored with that department's id (201), or a
  409 or 500 with the store unchanged; a caller who heads none is answered 404 "Department
  not found" with the store unchanged.
\<close>

theorem create_subject_own_department:
  fixes req :: request and d :: db and sch :: schema and new_id :: jv
  defines "userId \<equiv> (case user req of None \<Rightarrow> JUndefined | Some u \<Rightarrow> fld u ''id'')"
  defines "mine \<equiv> eq_col ''hod_id'' userId (d ''departments'')"
  defines "res \<equiv> createSubject sch new_id d req"
  shows "(length mine \<noteq> 1 \<longrightarrow> res = (err 404 ''Department not found'', d))
       \<and> (\<forall>dep. mine = [dep] \<longrightarrow>
             (status (fst res) = 201
                \<and> snd res = d(''subjects'' := d ''subjects'' @
                     [[(''id'', new_id), (''name'', fld (body req) ''name''),
                       (''code'', fld (body req) ''code''),
                       (''description'', fld (body req) ''description''),
                       (''department_id'', fld dep ''id'')]]))
             \<or> (status (fst res) = 409 \<or> status (fst res) = 500) \<and> snd res = d)
       \<and> (\<forall>b. fld b ''name'' = fld (body req) ''name'' \<and> fld b ''code'' = fld (body req) ''code''
                \<and> fld b ''description'' = fld (body req) ''description''
              \<longrightarrow> createSubject sch new_id d (req\<lparr>body := b\<rparr>) = res)"
proof -
  have c1: "length mine \<noteq> 1 \<longrightarrow> res = (err 404 ''Department not found'', d)"
    unfolding res_def mine_def userId_def
    by (cases "eq_col ''hod_id'' (case user req of None \<Rightarrow> JUndefined | Some u \<Rightarrow> fld u ''id'') (d ''departments'')";
        cases "tl (eq_col ''hod_id'' (case user req of None \<Rightarrow> JUndefined | Some u \<Rightarrow> fld u ''id'') (d ''departments''))")
       (auto simp: createSubject_def Let_def single_select_id)
  have c2: "(status (fst res) = 201
                \<and> snd res = d(''subjects'' := d ''subjects'' @
                     [[(''id'', new_id), (''name'', fld (body req) ''name''),
                       (''code'', fld (body req) ''code''),
                       (''description'', fld (body req) ''description''),
                       (''department_id'', fld dep ''id'')]]))
             \<or> (status (fst res) = 409 \<or> status (fst res) = 500) \<and> snd res = d"
    if "mine = [dep]" for dep
    using that unfolding res_def mine_def userId_def
    by (auto simp: createSubject_def Let_def single_select_id fld_filter_col insert_one err_def)
  have c3: "createSubject sch new_id d (req\<lparr>body := b\<rparr>) = res"
    if "fld b ''name'' = fld (body req) ''name''" "fld b ''code'' = fld (body req) ''code''"
       "fld b ''description'' = fld (body req) ''description''" for b
    using that unfolding res_def
    by (simp add: createSubject_def)
  from c1 c2 c3 show ?thesis by blast
qed

text \<open>
  In the school, a head of department who heads no department is answered 404, and a body
  naming the department \<^verbatim>\<open>d2\<close> gives what the same body without it gives.
\<close>

lemma school_departments:
  "eq_col ''hod_id'' (JStr ''h1'') (school ''departments'')
     = [[(''id'', JStr ''d1''), (''name'', JStr ''Science''), (''hod_id'', JStr ''h1'')]]"
  "eq_col ''hod_id'' (JStr ''h7'') (school ''departments'') = []"
  "eq_col ''id'' (JStr ''d1'') (school ''departments'') \<noteq> []"
  by (simp_all add: eq_col_def school_def fld_def notnull_def)

lemma school_subjects:
  "school ''subjects'' = [[(''id'', JStr ''s1''), (''name'', JStr ''Physics''), (''code'', JStr ''PHY''),
          (''department_id'', JStr ''d1'')]]"
  "school_schema ''subjects'' = \<lparr>uniques = [[''id''], [''code'']],
     fks = [(''department_id'', ''departments'')], types = [], not_null = []\<rparr>"
  "school ''departments'' =
        [[(''id'', JStr ''d1''), (''name'', JStr ''Science''), (''hod_id'', JStr ''h1'')],
         [(''id'', JStr ''d2''), (''name'', JStr ''Arts''), (''hod_id'', JNull)]]"
  by (simp_all add: school_def school_schema_def)

theorem create_subject_own_department_witness:
  "createSubject school_schema (JStr ''n1'') school
      ((as_hod [(''name'', JStr ''Chemistry''), (''code'', JStr ''CHE'')])
         \<lparr>user := Some [(''id'', JStr ''h7''), (''role'', JStr ''hod'')]\<rparr>)
     = (err 404 ''Department not found'', school)
   \<and> createSubject school_schema (JStr ''n1'') school
        (as_hod [(''name'', JStr ''Chemistry''), (''code'', JStr ''CHE''), (''department_id'', JStr ''d2'')])
     = createSubject school_schema (JStr ''n1'') school
        (as_hod [(''name'', JStr ''Chemistry''), (''code'', JStr ''CHE'')])"
proof (intro conjI)
  let ?r = "(as_hod [(''name'', JStr ''Chemistry''), (''code'', JStr ''CHE'')])
         \<lparr>user := Some [(''id'', JStr ''h7''), (''role'', JStr ''hod'')]\<rparr>"
  show "createSubject school_schema (JStr ''n1'') school ?r = (err 404 ''Department not found'', school)"
    using create_subject_own_department [where req = ?r and d = school and sch = school_schema
            and new_id = "JStr ''n1''"]
    by (simp add: fld_cons school_departments)
next
  let ?r = "as_hod [(''name'', JStr ''Chemistry''), (''code'', JStr ''CHE'')]"
  let ?b = "[(''name'', JStr ''Chemistry''), (''code'', JStr ''CHE''), (''department_id'', JStr ''d2'')]"
  have "fld ?b ''name'' = fld (body ?r) ''name'' \<and> fld ?b ''code'' = fld (body ?r) ''code''
                \<and> fld ?b ''description'' = fld (body ?r) ''description''"
    by (simp add: as_hod_def fld_def)
  moreover have "?r\<lparr>body := ?b\<rparr> = as_hod ?b"
    by (simp add: as_hod_def)
  ultimately show "createSubject school_schema (JStr ''n1'') school (as_hod ?b)
     = createSubject school_schema (JStr ''n1'') school ?r"
    using create_subject_own_department [where req = ?r and d = school and sch = school_schema
            and new_id = "JStr ''n1''"]
    by metis
qed

text \<open>
  The head of \<^verbatim>\<open>d1\<close> submits a subject naming the department \<^verbatim>\<open>d2\<close>: the answer is 201
  and the subject is stored in \<^verbatim>\<open>d1\<close>. A head of no department is answered 404, not 403.
\<close>

theorem other_department_redirected:
  "status (fst (createSubject school_schema (JStr ''n1'') school
        (as_hod [(''name'', JStr ''Chemistry''), (''code'', JStr ''CHE''), (''department_id'', JStr ''d2'')])))
     = 201
   \<and> snd (createSubject school_schema (JStr ''n1'') school
        (as_hod [(''name'', JStr ''Chemistry''), (''code'', JStr ''CHE''), (''department_id'', JStr ''d2'')]))
       ''subjects''
     = [[(''id'', JStr ''s1''), (''name'', JStr ''Physics''), (''code'', JStr ''PHY''),
         (''department_id'', JStr ''d1'')],
        [(''id'', JStr ''n1''), (''name'', JStr ''Chemistry''), (''code'', JStr ''CHE''),
         (''description'', JUndefined), (''department_id'', JStr ''d1'')]]
   \<and> status (fst (createSubject school_schema (JStr ''n1'') school
        ((as_hod [(''name'', JStr ''Chemistry''), (''code'', JStr ''CHE'')])
           \<lparr>user := Some [(''id'', JStr ''h7''), (''role'', JStr ''hod'')]\<rparr>)))
     = 404"
proof -
  let ?b = "[(''name'', JStr ''Chemistry''), (''code'', JStr ''CHE''), (''department_id'', JStr ''d2'')]"
  let ?row = "[(''id'', JStr ''n1''), (''name'', JStr ''Chemistry''), (''code'', JStr ''CHE''),
         (''description'', JUndefined), (''department_id'', JStr ''d1'')]"
  have u: "(case user (as_hod ?b) of None \<Rightarrow> JUndefined | Some u \<Rightarrow> fld u ''id'') = JStr ''h1''"
          "fld (body (as_hod ?b)) ''name'' = JStr ''Chemistry''"
          "fld (body (as_hod ?b)) ''code'' = JStr ''CHE''"
          "fld (body (as_hod ?b)) ''description'' = JUndefined"
    by (simp_all add: as_hod_def fld_def)
  have i: "insert_rows school_schema school ''subjects'' [?row]
             = Inr (school(''subjects'' := school ''subjects'' @ [?row]))"
    by (simp add: insert_one dup_key_def dangling_def typed_ok_def lacks_value_def resolves_def
          same_value_def col_type_def school_subjects same_key_def fld_cons notnull_def)
  have 1: "createSubject school_schema (JStr ''n1'') school (as_hod ?b)
        = (\<lparr>status = 201, json = [(''success'', JBool True),
                         (''message'', JStr ''Subject created successfully''),
                         (''subject'', JObj ?row)]\<rparr>, school(''subjects'' := school ''subjects'' @ [?row]))"
    by (simp add: createSubject_def Let_def u school_departments single_select_id fld_cons i)
  have 2: "status (fst (createSubject school_schema (JStr ''n1'') school
        ((as_hod [(''name'', JStr ''Chemistry''), (''code'', JStr ''CHE'')])
           \<lparr>user := Some [(''id'', JStr ''h7''), (''role'', JStr ''hod'')]\<rparr>))) = 404"
    by (simp add: createSubject_def Let_def fld_cons school_departments single_select_id err_def)
  show ?thesis
    by (simp add: 1 2 school_subjects)
qed

section \<open>Facts about the academy\<close>

lemma uuid_samples:
  "uuid_text ''00000000-0000-0000-0000-000000000051'' = Some ''00000000-0000-0000-0000-000000000051''"
  "uuid_text ''00000000-0000-0000-0000-0000000000f1'' = Some ''00000000-0000-0000-0000-0000000000f1''"
  "uuid_text ''00000000-0000-0000-0000-0000000000f9'' = Some ''00000000-0000-0000-0000-0000000000f9''"
  "uuid_text ''00000000-0000-0000-0000-0000000000e0'' = Some ''00000000-0000-0000-0000-0000000000e0''"
  "uuid_text ''00000000-0000-0000-0000-0000000000e1'' = Some ''00000000-0000-0000-0000-0000000000e1''"
  "uuid_text ''00000000-0000-0000-0000-0000000000b1'' = Some ''00000000-0000-0000-0000-0000000000b1''"
  "uuid_text ''00000000-0000-0000-0000-0000000000c1'' = Some ''00000000-0000-0000-0000-0000000000c1''"
  "uuid_text ''00000000-0000-0000-0000-0000000000d1'' = Some ''00000000-0000-0000-0000-0000000000d1''"
  "uuid_text ''00000000-0000-0000-0000-0000000000d2'' = Some ''00000000-0000-0000-0000-0000000000d2''"
  "uuid_text ''00000000000000000000000000000051'' = Some ''00000000-0000-0000-0000-000000000051''"
  "uuid_text ''k2'' = None"
  by (simp_all add: uuid_text_def unbrace_def eval_nat_numeral hex_digit_def skip_hyphen_def
        lower_char_def)

lemma bool_samples: "bool_text ''maybe'' = None" "bool_text ''yes'' = Some True"
  by (simp_all add: bool_text_def trim_def space_char_def lower_char_def)

lemma academy_rows:
  "academy ''subjects'' = [[(''id'', id_of ''51''), (''name'', JStr ''Physics''), (''code'', JStr ''PHY'')]]"
  "academy ''academic_levels'' = [[(''id'', id_of ''f1''), (''name'', JStr ''Form 1'')]]"
  "academy ''subject_academic_levels'' = []"
  "academy ''parents'' = [[(''id'', id_of ''b1'')]]"
  "academy ''student_parents'' =
     [[(''id'', id_of ''c1''), (''parent_id'', id_of ''b1''), (''student_id'', id_of ''d1'')]]"
  by (simp_all add: academy_def)


section \<open>Linking a parent to students\<close>



section \<open>Assigning a subject to an academic level\<close>

lemma migration_sal:
  "migration_schema ''subject_academic_levels'' =
     \<lparr>uniques = [[''id''], [''subject_id'', ''academic_level_id'']],
      fks = [(''subject_id'', ''subjects''), (''academic_level_id'', ''academic_levels'')],
      types = [(''id'', UUID), (''subject_id'', UUID), (''academic_level_id'', UUID),
               (''is_required'', BOOLEAN)],
      not_null = [''id'']\<rparr>"
  by (simp add: migration_schema_def)

text \<open>
  C5, as the code has it. \<^verbatim>\<open>assignSubjectToAcademicLevel\<close> looks nothing up: it checks
  that both ids are in the body (400 otherwise) and inserts the junction row, with
  \<^verbatim>\<open>is_required\<close> true unless the body gives it. It never answers 404, and every answer
  other than 201 leaves the store as it was. Under the constraints the migration declares:
  an id that is no uuid, or an \<^verbatim>\<open>is_required\<close> that is no boolean, is answered 500; a
  pair that is already stored (ids compared as uuids) is answered 409 by the unique key; an
  id of no subject or of no academic level is answered 500 by the foreign key; otherwise
  the answer is 201 and one row is added to the junction table, the row as it was sent when
  its values are written the way the store writes them.
\<close>

theorem assign_level_by_constraints:
  fixes req :: request and d :: db and new_id :: jv
  defines "level \<equiv> fld (body req) ''academic_level_id''"
      and "subject \<equiv> fld (body req) ''subject_id''"
      and "flag \<equiv> (if fld (body req) ''is_required'' \<noteq> JUndefined
                     then fld (body req) ''is_required'' else JBool True)"
      and "res \<equiv> assignSubjectToAcademicLevel migration_schema new_id d req"
      and "links \<equiv> d ''subject_academic_levels''"
  defines "data \<equiv> [(''id'', new_id), (''academic_level_id'', level), (''subject_id'', subject),
                     (''is_required'', flag)]"
      and "typed \<equiv> notnull new_id \<and> read_as UUID new_id \<noteq> None \<and> read_as UUID level \<noteq> None
                     \<and> read_as UUID subject \<noteq> None \<and> read_as BOOLEAN flag \<noteq> None"
      and "sent \<equiv> truthy level \<and> truthy subject"
  shows "status (fst res) \<noteq> 404
    \<and> (status (fst res) \<noteq> 201 \<longrightarrow> snd res = d)
    \<and> (\<not> sent \<longrightarrow> status (fst res) = 400)
    \<and> (sent \<and> \<not> typed \<longrightarrow> status (fst res) = 500)
    \<and> (sent \<and> typed
           \<and> list_ex (\<lambda>r. same_value (Some UUID) (fld r ''subject_id'') subject
                          \<and> same_value (Some UUID) (fld r ''academic_level_id'') level) links
         \<longrightarrow> status (fst res) = 409)
    \<and> (sent \<and> typed \<and> \<not> dup_key migration_schema d ''subject_academic_levels'' data
           \<and> (\<not> resolves (Some UUID) subject (d ''subjects'')
               \<or> \<not> resolves (Some UUID) level (d ''academic_levels''))
         \<longrightarrow> status (fst res) = 500)
    \<and> (sent \<and> typed \<and> \<not> dup_key migration_schema d ''subject_academic_levels'' data
           \<and> resolves (Some UUID) subject (d ''subjects'')
           \<and> resolves (Some UUID) level (d ''academic_levels'')
         \<longrightarrow> status (fst res) = 201
             \<and> length (snd res ''subject_academic_levels'') = Suc (length links)
             \<and> (\<forall>t. t \<noteq> ''subject_academic_levels'' \<longrightarrow> snd res t = d t)
             \<and> (read_as UUID level = Some level \<and> read_as UUID subject = Some subject
                  \<and> read_as BOOLEAN flag = Some flag
                \<longrightarrow> snd res = d(''subject_academic_levels'' := links @ [data])))"
proof -
  have ty: "typed_ok migration_schema ''subject_academic_levels'' data
              \<and> \<not> lacks_value migration_schema ''subject_academic_levels'' data \<longleftrightarrow> typed"
    unfolding typed_def data_def
    by (auto simp: typed_ok_def lacks_value_def migration_sal fld_cons fld_nil)
  have unf: "res = (if \<not> sent then (err 400 ''academic_level_id and subject_id are required'', d)
               else case insert_rows migration_schema d ''subject_academic_levels'' [data] of
                 Inl c \<Rightarrow>
                   if c = ''23505'' then (err 409 ''Subject already assigned to this academic level'', d)
                   else (err 500 ''Failed to assign subject to academic level'', d)
               | Inr d' \<Rightarrow>
                   (\<lparr>status = 201, json = [(''success'', JBool True),
                       (''message'', JStr ''Subject assigned to academic level successfully''),
                       (''data'', JObj data)]\<rparr>, d'))"
    unfolding res_def level_def subject_def data_def flag_def sent_def
    by (simp add: assignSubjectToAcademicLevel_def Let_def)
  have dang: "dangling migration_schema d' ''subject_academic_levels'' data
                \<longleftrightarrow> \<not> resolves (Some UUID) subject (d' ''subjects'')
                    \<or> \<not> resolves (Some UUID) level (d' ''academic_levels'')"
    if "sent" for d'
    using that unfolding dangling_def migration_sal data_def sent_def
    by (auto simp: fld_cons fld_nil col_type_def migration_sal truthy_notnull)
  have dup: "dup_key migration_schema d ''subject_academic_levels'' data"
    if "sent" "list_ex (\<lambda>r. same_value (Some UUID) (fld r ''subject_id'') subject
                          \<and> same_value (Some UUID) (fld r ''academic_level_id'') level) links"
    using that unfolding dup_key_def migration_sal links_def data_def sent_def
    by (auto simp: list_ex_iff same_key_def fld_cons fld_nil truthy_notnull col_type_def migration_sal)
  have c1: "status (fst res) \<noteq> 404"
    by (auto simp: unf err_def split: sum.splits)
  have c2: "status (fst res) \<noteq> 201 \<longrightarrow> snd res = d"
    by (auto simp: unf err_def split: sum.splits)
  have c3: "\<not> sent \<longrightarrow> status (fst res) = 400"
    by (simp add: unf err_def)
  have c4: "sent \<and> \<not> typed \<longrightarrow> status (fst res) = 500"
    using ty by (auto simp: unf insert_one err_def)
  have c5: "sent \<and> typed
           \<and> list_ex (\<lambda>r. same_value (Some UUID) (fld r ''subject_id'') subject
                          \<and> same_value (Some UUID) (fld r ''academic_level_id'') level) links
         \<longrightarrow> status (fst res) = 409"
    using ty dup by (auto simp: unf insert_one err_def)
  have c6: "sent \<and> typed \<and> \<not> dup_key migration_schema d ''subject_academic_levels'' data
           \<and> (\<not> resolves (Some UUID) subject (d ''subjects'')
               \<or> \<not> resolves (Some UUID) level (d ''academic_levels''))
         \<longrightarrow> status (fst res) = 500"
    using ty by (auto simp: unf insert_one err_def dang)
  have c7: "sent \<and> typed \<and> \<not> dup_key migration_schema d ''subject_academic_levels'' data
           \<and> resolves (Some UUID) subject (d ''subjects'')
           \<and> resolves (Some UUID) level (d ''academic_levels'')
         \<longrightarrow> status (fst res) = 201
             \<and> length (snd res ''subject_academic_levels'') = Suc (length links)
             \<and> (\<forall>t. t \<noteq> ''subject_academic_levels'' \<longrightarrow> snd res t = d t)
             \<and> (read_as UUID level = Some level \<and> read_as UUID subject = Some subject
                  \<and> read_as BOOLEAN flag = Some flag
                \<longrightarrow> snd res = d(''subject_academic_levels'' := links @ [data]))"
    using ty by (auto simp: unf insert_one dang links_def)
  from c1 c2 c3 c4 c5 c6 c7 show ?thesis by blast
qed

lemma academy_no_links: "\<not> dup_key migration_schema academy ''subject_academic_levels'' r"
  by (simp add: dup_key_def academy_rows migration_sal)

lemma academy_resolves:
  "resolves (Some UUID) (id_of ''51'') (academy ''subjects'')"
  "resolves (Some UUID) (JStr ''00000000000000000000000000000051'') (academy ''subjects'')"
  "resolves (Some UUID) (id_of ''f1'') (academy ''academic_levels'')"
  "\<not> resolves (Some UUID) (id_of ''f9'') (academy ''academic_levels'')"
  by (simp_all add: resolves_def same_value_def academy_rows fld_cons id_of_def uuid_samples)

text \<open>
  In the academy, the subject \<^verbatim>\<open>51\<close> is assigned to the level \<^verbatim>\<open>f1\<close>: 201, and the row
  is stored with \<^verbatim>\<open>is_required\<close> true. With \<^verbatim>\<open>is_required\<close> \<^verbatim>\<open>'maybe'\<close> the answer is 500;
  with the subject's id written without hyphens and \<^verbatim>\<open>is_required\<close> \<^verbatim>\<open>'yes'\<close> it is 201.
\<close>

theorem assign_level_by_constraints_witness:
  "assignSubjectToAcademicLevel migration_schema (id_of ''e1'') academy
       (as_admin [(''academic_level_id'', id_of ''f1''), (''subject_id'', id_of ''51'')] [])
     = (\<lparr>status = 201, json = [(''success'', JBool True),
           (''message'', JStr ''Subject assigned to academic level successfully''),
           (''data'', JObj [(''id'', id_of ''e1''), (''academic_level_id'', id_of ''f1''),
                            (''subject_id'', id_of ''51''), (''is_required'', JBool True)])]\<rparr>,
        academy(''subject_academic_levels'' :=
          [[(''id'', id_of ''e1''), (''academic_level_id'', id_of ''f1''),
            (''subject_id'', id_of ''51''), (''is_required'', JBool True)]]))
   \<and> status (fst (assignSubjectToAcademicLevel migration_schema (id_of ''e1'') academy
       (as_admin [(''academic_level_id'', id_of ''f1''), (''subject_id'', id_of ''51''),
                  (''is_required'', JStr ''maybe'')] []))) = 500
   \<and> status (fst (assignSubjectToAcademicLevel migration_schema (id_of ''e1'') academy
       (as_admin [(''academic_level_id'', id_of ''f1''),
                  (''subject_id'', JStr ''00000000000000000000000000000051''),
                  (''is_required'', JStr ''yes'')] []))) = 201"
proof -
  let ?r1 = "as_admin [(''academic_level_id'', id_of ''f1''), (''subject_id'', id_of ''51'')] []"
  let ?r2 = "as_admin [(''academic_level_id'', id_of ''f1''), (''subject_id'', id_of ''51''),
                  (''is_required'', JStr ''maybe'')] []"
  let ?r3 = "as_admin [(''academic_level_id'', id_of ''f1''),
                  (''subject_id'', JStr ''00000000000000000000000000000051''),
                  (''is_required'', JStr ''yes'')] []"
  let ?data = "[(''id'', id_of ''e1''), (''academic_level_id'', id_of ''f1''),
                (''subject_id'', id_of ''51''), (''is_required'', JBool True)]"
  note ev = body_as_admin fld_cons fld_nil academy_resolves academy_no_links academy_rows(3)
  have ids: "read_as UUID (id_of ''e1'') = Some (id_of ''e1'')" "read_as UUID (id_of ''f1'') = Some (id_of ''f1'')"
      "read_as UUID (id_of ''51'') = Some (id_of ''51'')" "notnull (id_of ''e1'')"
      "truthy (id_of ''f1'')" "truthy (id_of ''51'')"
      "read_as UUID (JStr ''00000000000000000000000000000051'') \<noteq> None"
    by (simp_all add: id_of_def uuid_samples notnull_def)
  have 1: "status (fst (assignSubjectToAcademicLevel migration_schema (id_of ''e1'') academy ?r1)) = 201
        \<and> snd (assignSubjectToAcademicLevel migration_schema (id_of ''e1'') academy ?r1)
            = academy(''subject_academic_levels'' := [?data])"
    using assign_level_by_constraints [where req = ?r1 and d = academy and new_id = "id_of ''e1''"] ids
    by (simp add: ev)
  have j: "json (fst (assignSubjectToAcademicLevel migration_schema (id_of ''e1'') academy ?r1))
       = [(''success'', JBool True),
           (''message'', JStr ''Subject assigned to academic level successfully''),
           (''data'', JObj ?data)]"
    using 1 ids(5,6)
    by (auto simp: assignSubjectToAcademicLevel_def Let_def body_as_admin fld_cons fld_nil
          err_def split: sum.splits if_splits)
  have 2: "status (fst (assignSubjectToAcademicLevel migration_schema (id_of ''e1'') academy ?r2)) = 500"
    using assign_level_by_constraints [where req = ?r2 and d = academy and new_id = "id_of ''e1''"] ids
    by (simp add: ev bool_samples)
  have 3: "status (fst (assignSubjectToAcademicLevel migration_schema (id_of ''e1'') academy ?r3)) = 201"
    using assign_level_by_constraints [where req = ?r3 and d = academy and new_id = "id_of ''e1''"] ids
    by (simp add: ev bool_samples del: read_as.simps) (simp add: bool_samples)
  from 1 j have "assignSubjectToAcademicLevel migration_schema (id_of ''e1'') academy ?r1
     = (\<lparr>status = 201, json = [(''success'', JBool True),
           (''message'', JStr ''Subject assigned to academic level successfully''),
           (''data'', JObj ?data)]\<rparr>, academy(''subject_academic_levels'' := [?data]))"
    by (cases "assignSubjectToAcademicLevel migration_schema (id_of ''e1'') academy ?r1")
       (cases "fst (assignSubjectToAcademicLevel migration_schema (id_of ''e1'') academy ?r1)", auto)
  with 2 3 show ?thesis by blast
qed

text \<open>
  The academy has no academic level \<^verbatim>\<open>f9\<close>, a well-formed uuid; assigning a subject to it
  is answered 500, not 404.
\<close>

theorem absent_level_is_500:
  "read_as UUID (id_of ''f9'') = Some (id_of ''f9'')
   \<and> \<not> resolves (Some UUID) (id_of ''f9'') (academy ''academic_levels'')
   \<and> assignSubjectToAcademicLevel migration_schema (id_of ''e1'') academy
       (as_admin [(''academic_level_id'', id_of ''f9''), (''subject_id'', id_of ''51'')] [])
     = (\<lparr>status = 500, json = [(''success'', JBool False),
           (''error'', JStr ''Failed to assign subject to academic level'')]\<rparr>, academy)"
proof -
  let ?req = "as_admin [(''academic_level_id'', id_of ''f9''), (''subject_id'', id_of ''51'')] []"
  let ?data = "[(''id'', id_of ''e1''), (''academic_level_id'', id_of ''f9''),
                (''subject_id'', id_of ''51''), (''is_required'', JBool True)]"
  have ids: "read_as UUID (id_of ''e1'') = Some (id_of ''e1'')" "read_as UUID (id_of ''f9'') = Some (id_of ''f9'')"
      "read_as UUID (id_of ''51'') = Some (id_of ''51'')" "notnull (id_of ''e1'')"
      "truthy (id_of ''f9'')" "truthy (id_of ''51'')" "notnull (id_of ''f9'')" "notnull (id_of ''51'')"
    by (simp_all add: id_of_def uuid_samples notnull_def)
  have i: "insert_rows migration_schema academy ''subject_academic_levels'' [?data] = Inl ''23503''"
    by (simp add: insert_one typed_ok_def lacks_value_def academy_no_links dangling_def migration_sal
          fld_cons ids col_type_def academy_resolves)
  show ?thesis
    by (simp add: assignSubjectToAcademicLevel_def Let_def body_as_admin fld_cons fld_nil ids i err_def
          academy_resolves)
qed

section \<open>The token codec\<close>

lemma span_7d: "span_seconds ''7d'' = Some 604800"
  by (simp add: span_seconds_def digit_val_def unit_seconds_def)

lemma generateToken_jwt:
  "generateToken (jwt_sign mac now) secret u =
     Some ([(''userId'', fld u ''id''), (''email'', fld u ''email''), (''role'', fld u ''role''),
            (''iat'', JNum now), (''exp'', JNum (now + 604800))],
           mac secret [(''userId'', fld u ''id''), (''email'', fld u ''email''), (''role'', fld u ''role''),
            (''iat'', JNum now), (''exp'', JNum (now + 604800))])"
  by (simp add: generateToken_def jwt_sign_def span_7d Let_def)

text \<open>
  C6. A token issued by \<^verbatim>\<open>generateToken\<close> at the time \<open>issued_at\<close> verifies at every time
  before \<open>issued_at\<close> plus seven days, and the decoded payload has the user's id, e-mail and
  role as they were at issue; at every time after \<open>issued_at\<close> plus seven days it is
  invalid. The verification is a function of the token, the secret and the time alone.
\<close>

theorem token_round_trip:
  "\<exists>tok. generateToken (jwt_sign mac issued_at) secret u = Some tok
     \<and> (\<forall>t. t < issued_at + 7 * 86400 \<longrightarrow>
           (\<exists>decoded. jwt_verify mac t tok secret = Some decoded
              \<and> fld decoded ''userId'' = fld u ''id''
              \<and> fld decoded ''email'' = fld u ''email''
              \<and> fld decoded ''role'' = fld u ''role''))
     \<and> (\<forall>t. issued_at + 7 * 86400 < t \<longrightarrow> jwt_verify mac t tok secret = None)"
  by (simp add: generateToken_jwt jwt_verify_def fld_def)

text \<open>
  A token issued to the teacher \<^verbatim>\<open>t1\<close> at second 1000 verifies at once, with the
  claims it was given, and is invalid at second 605801.
\<close>

theorem token_round_trip_witness:
  "jwt_verify toy_mac 1000 (the (generateToken (jwt_sign toy_mac 1000) ''k'' [(''id'', JStr ''t1''), (''email'', JStr ''ann@school''), (''role'', JStr ''teacher'')])) ''k''
     = Some [(''userId'', JStr ''t1''), (''email'', JStr ''ann@school''), (''role'', JStr ''teacher''),
             (''iat'', JNum 1000), (''exp'', JNum 605800)]
   \<and> jwt_verify toy_mac 605801 (the (generateToken (jwt_sign toy_mac 1000) ''k'' [(''id'', JStr ''t1''), (''email'', JStr ''ann@school''), (''role'', JStr ''teacher'')])) ''k'' = None"
proof -
  let ?u = "[(''id'', JStr ''t1''), (''email'', JStr ''ann@school''), (''role'', JStr ''teacher'')]"
  obtain tok where g: "generateToken (jwt_sign toy_mac 1000) ''k'' ?u = Some tok"
    and v: "\<forall>t. t < 1000 + 7 * 86400 \<longrightarrow>
           (\<exists>decoded. jwt_verify toy_mac t tok ''k'' = Some decoded
              \<and> fld decoded ''userId'' = fld ?u ''id''
              \<and> fld decoded ''email'' = fld ?u ''email''
              \<and> fld decoded ''role'' = fld ?u ''role'')"
    and e: "\<forall>t. 1000 + 7 * 86400 < t \<longrightarrow> jwt_verify toy_mac t tok ''k'' = None"
    using token_round_trip [of toy_mac 1000 "''k''" ?u] by blast
  from v obtain decoded where "jwt_verify toy_mac 1000 tok ''k'' = Some decoded" by force
  moreover from g have "fst tok = [(''userId'', JStr ''t1''), (''email'', JStr ''ann@school''), (''role'', JStr ''teacher''),
             (''iat'', JNum 1000), (''exp'', JNum 605800)]"
    by (auto simp: generateToken_jwt fld_def)
  ultimately have 1: "jwt_verify toy_mac 1000 tok ''k'' = Some [(''userId'', JStr ''t1''), (''email'', JStr ''ann@school''), (''role'', JStr ''teacher''),
             (''iat'', JNum 1000), (''exp'', JNum 605800)]"
    by (cases tok) (auto simp: jwt_verify_def split: if_splits jv.splits)
  from e have 2: "jwt_verify toy_mac 605801 tok ''k'' = None" by simp
  from 1 2 g show ?thesis by simp
qed

section \<open>Registration and role profiles\<close>

lemma profiled_iff:
  "profiled d \<longleftrightarrow> (\<forall>u \<in> set (d ''users''). \<forall>t. profile_table (fld u ''role'') = Some t \<longrightarrow>
                      (\<exists>p \<in> set (d t). fld p ''user_id'' = fld u ''id''))"
  by (auto simp: profiled_def list_all_iff list_ex_iff split: option.splits)

lemma profile_table_not_users: "profile_table r = Some t \<Longrightarrow> t \<noteq> ''users''"
  by (auto simp: profile_table_def split: if_splits)

text \<open>The outcomes of the profile blocks.\<close>

lemma teacher_profile_cases:
  "teacher_profile sch pid now_ms today b newUser d = Inl (rollback_user d newUser)
   \<or> (\<exists>p. fld p ''user_id'' = fld newUser ''id''
          \<and> teacher_profile sch pid now_ms today b newUser d = Inr (d(''teachers'' := d ''teachers'' @ [p])))"
proof -
  let ?p = "[(''id'', pid), (''user_id'', fld newUser ''id''),
             (''employee_number'', JStr (''TCH'' @ now_ms)),
             (''department_id'', or_null (fld b ''department_id'')),
             (''hire_date'', JStr today)]"
  have "fld ?p ''user_id'' = fld newUser ''id''"
    by (simp add: fld_cons)
  moreover have "teacher_profile sch pid now_ms today b newUser d = Inl (rollback_user d newUser)
     \<or> teacher_profile sch pid now_ms today b newUser d = Inr (d(''teachers'' := d ''teachers'' @ [?p]))"
    by (simp add: teacher_profile_def Let_def insert_one)
  ultimately show ?thesis by blast
qed

lemma student_profile_cases:
  "student_profile sch pid now_ms today b newUser d = Inl (rollback_user d newUser)
   \<or> (\<exists>p. fld p ''user_id'' = fld newUser ''id''
          \<and> student_profile sch pid now_ms today b newUser d = Inr (p, d(''students'' := d ''students'' @ [p])))"
proof -
  let ?p = "[(''id'', pid), (''user_id'', fld newUser ''id''),
             (''student_number'', JStr (''STU'' @ now_ms)),
             (''class_id'', or_null (fld b ''class_id'')),
             (''date_of_birth'', or_null (fld b ''date_of_birth'')),
             (''gender'', or_null (fld b ''gender'')),
             (''address'', or_null (fld b ''address'')),
             (''enrollment_date'', JStr today)]"
  have "fld ?p ''user_id'' = fld newUser ''id''"
    by (simp add: fld_cons)
  moreover have "student_profile sch pid now_ms today b newUser d = Inl (rollback_user d newUser)
     \<or> student_profile sch pid now_ms today b newUser d = Inr (?p, d(''students'' := d ''students'' @ [?p]))"
    by (simp add: student_profile_def Let_def insert_one)
  ultimately show ?thesis by blast
qed

lemma parent_profile_cases:
  "parent_profile sch pid b newUser d = Inl (rollback_user d newUser)
   \<or> (\<exists>p. fld p ''user_id'' = fld newUser ''id''
          \<and> parent_profile sch pid b newUser d = Inr (p, d(''parents'' := d ''parents'' @ [p])))"
proof -
  let ?p = "[(''id'', pid), (''user_id'', fld newUser ''id''),
             (''relationship'', or_null (fld b ''relationship'')),
             (''occupation'', or_null (fld b ''occupation''))]"
  have "fld ?p ''user_id'' = fld newUser ''id''"
    by (simp add: fld_cons)
  moreover have "parent_profile sch pid b newUser d = Inl (rollback_user d newUser)
     \<or> parent_profile sch pid b newUser d = Inr (?p, d(''parents'' := d ''parents'' @ [?p]))"
    by (simp add: parent_profile_def Let_def insert_one)
  ultimately show ?thesis by blast
qed

lemma register_profiles_cases:
  fixes d1 :: db and sch :: schema and pid :: jv and now_ms today :: string and b newUser :: row
  defines "res \<equiv> register_profiles sch pid now_ms today b newUser d1"
  shows "(status (fst res) = 500 \<and> snd res = rollback_user d1 newUser)
       \<or> (status (fst res) = 201 \<and> profile_table (fld b ''role'') = None \<and> snd res = d1)
       \<or> (status (fst res) = 201 \<and>
            (\<exists>t p. profile_table (fld b ''role'') = Some t \<and> fld p ''user_id'' = fld newUser ''id''
                   \<and> snd res = d1(t := d1 t @ [p])))"
proof -
  consider (T) "fld b ''role'' = JStr ''teacher''" | (S) "fld b ''role'' = JStr ''student''"
    | (P) "fld b ''role'' = JStr ''parent''"
    | (N) "fld b ''role'' \<noteq> JStr ''teacher''" "fld b ''role'' \<noteq> JStr ''student''"
          "fld b ''role'' \<noteq> JStr ''parent''"
    by blast
  then show ?thesis
  proof cases
    case T
    have pt: "profile_table (fld b ''role'') = Some ''teachers''"
      using T by (simp add: profile_table_def)
    from teacher_profile_cases [of sch pid now_ms today b newUser d1] show ?thesis
    proof
      assume "teacher_profile sch pid now_ms today b newUser d1 = Inl (rollback_user d1 newUser)"
      then show ?thesis unfolding res_def
        using T by (simp add: register_profiles_def Let_def err_def)
    next
      assume "\<exists>p. fld p ''user_id'' = fld newUser ''id''
          \<and> teacher_profile sch pid now_ms today b newUser d1 = Inr (d1(''teachers'' := d1 ''teachers'' @ [p]))"
      then obtain p where p: "fld p ''user_id'' = fld newUser ''id''"
         "teacher_profile sch pid now_ms today b newUser d1 = Inr (d1(''teachers'' := d1 ''teachers'' @ [p]))"
        by blast
      have "status (fst res) = 201 \<and> snd res = d1(''teachers'' := d1 ''teachers'' @ [p])"
        unfolding res_def using T p(2) by (simp add: register_profiles_def Let_def)
      with pt p(1) show ?thesis by blast
    qed
  next
    case S
    have pt: "profile_table (fld b ''role'') = Some ''students''"
      using S by (simp add: profile_table_def)
    from student_profile_cases [of sch pid now_ms today b newUser d1] show ?thesis
    proof
      assume "student_profile sch pid now_ms today b newUser d1 = Inl (rollback_user d1 newUser)"
      then show ?thesis unfolding res_def
        using S by (simp add: register_profiles_def Let_def err_def)
    next
      assume "\<exists>p. fld p ''user_id'' = fld newUser ''id''
          \<and> student_profile sch pid now_ms today b newUser d1 = Inr (p, d1(''students'' := d1 ''students'' @ [p]))"
      then obtain p where p: "fld p ''user_id'' = fld newUser ''id''"
         "student_profile sch pid now_ms today b newUser d1 = Inr (p, d1(''students'' := d1 ''students'' @ [p]))"
        by blast
      have "status (fst res) = 201 \<and> snd res = d1(''students'' := d1 ''students'' @ [p])"
        unfolding res_def using S p(2) by (simp add: register_profiles_def Let_def)
      with pt p(1) show ?thesis by blast
    qed
  next
    case P
    have pt: "profile_table (fld b ''role'') = Some ''parents''"
      using P by (simp add: profile_table_def)
    from parent_profile_cases [of sch pid b newUser d1] show ?thesis
    proof
      assume "parent_profile sch pid b newUser d1 = Inl (rollback_user d1 newUser)"
      then show ?thesis unfolding res_def
        using P by (simp add: register_profiles_def Let_def err_def)
    next
      assume "\<exists>p. fld p ''user_id'' = fld newUser ''id''
          \<and> parent_profile sch pid b newUser d1 = Inr (p, d1(''parents'' := d1 ''parents'' @ [p]))"
      then obtain p where p: "fld p ''user_id'' = fld newUser ''id''"
         "parent_profile sch pid b newUser d1 = Inr (p, d1(''parents'' := d1 ''parents'' @ [p]))"
        by blast
      have "status (fst res) = 201 \<and> snd res = d1(''parents'' := d1 ''parents'' @ [p])"
        unfolding res_def using P p(2) by (simp add: register_profiles_def Let_def)
      with pt p(1) show ?thesis by blast
    qed
  next
    case N
    then show ?thesis unfolding res_def
      by (simp add: register_profiles_def Let_def profile_table_def)
  qed
qed

lemma register_cases:
  fixes req :: request and d :: db and sch :: schema and uid pid :: jv and now_ms today :: string
    and lower :: "string \<Rightarrow> string" and hash :: "jv \<Rightarrow> string option"
  defines "res \<equiv> register lower hash sch uid pid now_ms today d req"
  shows "(status (fst res) \<noteq> 201 \<and> snd res = d)
       \<or> (\<exists>newUser. fld newUser ''id'' = uid \<and> fld newUser ''role'' = fld (body req) ''role''
             \<and> res = register_profiles sch pid now_ms today (body req) newUser
                        (d(''users'' := d ''users'' @ [newUser])))"
proof -
  have "(status (fst res) \<noteq> 201 \<and> snd res = d)
       \<or> (\<exists>e h. res = register_profiles sch pid now_ms today (body req)
                   [(''id'', uid), (''email'', JStr (lower e)),
                    (''password_hash'', JStr h), (''role'', fld (body req) ''role''),
                    (''first_name'', fld (body req) ''first_name''),
                    (''last_name'', fld (body req) ''last_name''),
                    (''phone'', fld (body req) ''phone''), (''is_active'', JBool True)]
                   (d(''users'' := d ''users'' @
                   [[(''id'', uid), (''email'', JStr (lower e)),
                    (''password_hash'', JStr h), (''role'', fld (body req) ''role''),
                    (''first_name'', fld (body req) ''first_name''),
                    (''last_name'', fld (body req) ''last_name''),
                    (''phone'', fld (body req) ''phone''), (''is_active'', JBool True)]])))"
    unfolding res_def
    by (auto simp: register_def Let_def err_def insert_one split: jv.splits option.splits)
  then show ?thesis
  proof
    assume "status (fst res) \<noteq> 201 \<and> snd res = d"
    then show ?thesis by blast
  next
    assume "\<exists>e h. res = register_profiles sch pid now_ms today (body req)
                   [(''id'', uid), (''email'', JStr (lower e)),
                    (''password_hash'', JStr h), (''role'', fld (body req) ''role''),
                    (''first_name'', fld (body req) ''first_name''),
                    (''last_name'', fld (body req) ''last_name''),
                    (''phone'', fld (body req) ''phone''), (''is_active'', JBool True)]
                   (d(''users'' := d ''users'' @
                   [[(''id'', uid), (''email'', JStr (lower e)),
                    (''password_hash'', JStr h), (''role'', fld (body req) ''role''),
                    (''first_name'', fld (body req) ''first_name''),
                    (''last_name'', fld (body req) ''last_name''),
                    (''phone'', fld (body req) ''phone''), (''is_active'', JBool True)]]))"
    then obtain e h where r: "res = register_profiles sch pid now_ms today (body req)
                   [(''id'', uid), (''email'', JStr (lower e)),
                    (''password_hash'', JStr h), (''role'', fld (body req) ''role''),
                    (''first_name'', fld (body req) ''first_name''),
                    (''last_name'', fld (body req) ''last_name''),
                    (''phone'', fld (body req) ''phone''), (''is_active'', JBool True)]
                   (d(''users'' := d ''users'' @
                   [[(''id'', uid), (''email'', JStr (lower e)),
                    (''password_hash'', JStr h), (''role'', fld (body req) ''role''),
                    (''first_name'', fld (body req) ''first_name''),
                    (''last_name'', fld (body req) ''last_name''),
                    (''phone'', fld (body req) ''phone''), (''is_active'', JBool True)]]))"
      by blast
    let ?u = "[(''id'', uid), (''email'', JStr (lower e)),
                    (''password_hash'', JStr h), (''role'', fld (body req) ''role''),
                    (''first_name'', fld (body req) ''first_name''),
                    (''last_name'', fld (body req) ''last_name''),
                    (''phone'', fld (body req) ''phone''), (''is_active'', JBool True)]"
    have "fld ?u ''id'' = uid" "fld ?u ''role'' = fld (body req) ''role''"
      by (simp_all add: fld_cons)
    with r show ?thesis by blast
  qed
qed

lemma profiled_plain:
  assumes "profile_table (fld newUser ''role'') = None" "profiled d"
  shows "profiled (d(''users'' := d ''users'' @ [newUser]))"
  using assms
  by (auto simp: profiled_iff dest: profile_table_not_users)

lemma profiled_with:
  assumes "profile_table (fld newUser ''role'') = Some t" "fld p ''user_id'' = fld newUser ''id''"
    and "profiled d"
  shows "profiled ((d(''users'' := d ''users'' @ [newUser]))
                    (t := (d(''users'' := d ''users'' @ [newUser])) t @ [p]))"
proof -
  have t: "t \<noteq> ''users''" using assms(1) by (rule profile_table_not_users)
  show ?thesis
    unfolding profiled_iff
  proof (intro ballI allI impI)
    fix u t'
    assume u: "u \<in> set (((d(''users'' := d ''users'' @ [newUser]))
                    (t := (d(''users'' := d ''users'' @ [newUser])) t @ [p])) ''users'')"
      and pt: "profile_table (fld u ''role'') = Some t'"
    from pt have t': "t' \<noteq> ''users''" by (rule profile_table_not_users)
    from u t have "u \<in> set (d ''users'') \<or> u = newUser" by auto
    then show "\<exists>q \<in> set (((d(''users'' := d ''users'' @ [newUser]))
                    (t := (d(''users'' := d ''users'' @ [newUser])) t @ [p])) t').
                 fld q ''user_id'' = fld u ''id''"
    proof
      assume "u \<in> set (d ''users'')"
      with assms(3) pt obtain q where "q \<in> set (d t')" "fld q ''user_id'' = fld u ''id''"
        unfolding profiled_iff by blast
      then show ?thesis using t' by auto
    next
      assume "u = newUser"
      with pt assms(1) have "t' = t" by simp
      then show ?thesis using assms(2) \<open>u = newUser\<close> by auto
    qed
  qed
qed

lemma accepted_insert:
  "accepted sch d t r \<Longrightarrow> insert_rows sch d t [r] = Inr (d(t := d t @ [r]))"
  "\<not> accepted sch d t r \<Longrightarrow> \<exists>c. insert_rows sch d t [r] = Inl c"
  by (auto simp: accepted_def insert_one split: if_splits)

lemma rollback_fresh:
  assumes "notnull (fld u ''id'')" "\<forall>r \<in> set (d ''users''). fld r ''id'' \<noteq> fld u ''id''"
  shows "rollback_user (d(''users'' := d ''users'' @ [u])) u = d"
proof -
  have "filter (\<lambda>r. fld r ''id'' \<noteq> fld u ''id'') (d ''users'') = d ''users''"
    using assms(2) by (induction "d ''users''") (auto simp: filter_id_conv)
  then show ?thesis
    using assms(1) by (simp add: rollback_user_def delete_where_def)
qed

lemma register_admitted:
  assumes "admitted lower hash d req e h"
  shows "register lower hash sch uid pid now_ms today d req =
     (case insert_rows sch d ''users''
             [[(''id'', uid), (''email'', JStr (lower e)), (''password_hash'', JStr h),
               (''role'', fld (body req) ''role''), (''first_name'', fld (body req) ''first_name''),
               (''last_name'', fld (body req) ''last_name''), (''phone'', fld (body req) ''phone''),
               (''is_active'', JBool True)]] of
        Inl c \<Rightarrow> (err 500 ''Failed to create user'', d)
      | Inr d1 \<Rightarrow> register_profiles sch pid now_ms today (body req)
             [(''id'', uid), (''email'', JStr (lower e)), (''password_hash'', JStr h),
               (''role'', fld (body req) ''role''), (''first_name'', fld (body req) ''first_name''),
               (''last_name'', fld (body req) ''last_name''), (''phone'', fld (body req) ''phone''),
               (''is_active'', JBool True)] d1)"
  using assms by (auto simp: admitted_def register_def Let_def)

lemma register_201_admitted:
  assumes "status (fst (register lower hash sch uid pid now_ms today d req)) = 201"
  shows "\<exists>e h. admitted lower hash d req e h"
  using assms
  by (auto simp: register_def admitted_def Let_def err_def split: if_splits jv.splits option.splits)

lemma profiles_teacher:
  fixes b u :: row and pid :: jv and now_ms today :: string
  assumes "fld b ''role'' = JStr ''teacher''"
  defines "p \<equiv> [(''id'', pid), (''user_id'', fld u ''id''),
                  (''employee_number'', JStr (''TCH'' @ now_ms)),
                  (''department_id'', or_null (fld b ''department_id'')),
                  (''hire_date'', JStr today)]"
  shows "accepted sch d1 ''teachers'' p \<Longrightarrow>
           status (fst (register_profiles sch pid now_ms today b u d1)) = 201
           \<and> snd (register_profiles sch pid now_ms today b u d1) = d1(''teachers'' := d1 ''teachers'' @ [p])"
    and "\<not> accepted sch d1 ''teachers'' p \<Longrightarrow>
           register_profiles sch pid now_ms today b u d1
             = (err 500 ''Failed to create teacher profile'', rollback_user d1 u)"
  using assms(1) unfolding p_def
  by (auto simp: register_profiles_def teacher_profile_def Let_def dest!: accepted_insert)

lemma profiles_student:
  fixes b u :: row and pid :: jv and now_ms today :: string
  assumes "fld b ''role'' = JStr ''student''"
  defines "p \<equiv> [(''id'', pid), (''user_id'', fld u ''id''),
                  (''student_number'', JStr (''STU'' @ now_ms)),
                  (''class_id'', or_null (fld b ''class_id'')),
                  (''date_of_birth'', or_null (fld b ''date_of_birth'')),
                  (''gender'', or_null (fld b ''gender'')),
                  (''address'', or_null (fld b ''address'')),
                  (''enrollment_date'', JStr today)]"
  shows "accepted sch d1 ''students'' p \<Longrightarrow>
           status (fst (register_profiles sch pid now_ms today b u d1)) = 201
           \<and> snd (register_profiles sch pid now_ms today b u d1) = d1(''students'' := d1 ''students'' @ [p])"
    and "\<not> accepted sch d1 ''students'' p \<Longrightarrow>
           register_profiles sch pid now_ms today b u d1
             = (err 500 ''Failed to create student profile'', rollback_user d1 u)"
  using assms(1) unfolding p_def
  by (auto simp: register_profiles_def student_profile_def Let_def dest!: accepted_insert)

lemma profiles_parent:
  fixes b u :: row and pid :: jv
  assumes "fld b ''role'' = JStr ''parent''"
  defines "p \<equiv> [(''id'', pid), (''user_id'', fld u ''id''),
                  (''relationship'', or_null (fld b ''relationship'')),
                  (''occupation'', or_null (fld b ''occupation''))]"
  shows "accepted sch d1 ''parents'' p \<Longrightarrow>
           status (fst (register_profiles sch pid now_ms today b u d1)) = 201
           \<and> snd (register_profiles sch pid now_ms today b u d1) = d1(''parents'' := d1 ''parents'' @ [p])"
    and "\<not> accepted sch d1 ''parents'' p \<Longrightarrow>
           register_profiles sch pid now_ms today b u d1
             = (err 500 ''Failed to create parent profile'', rollback_user d1 u)"
  using assms(1) unfolding p_def
  by (auto simp: register_profiles_def parent_profile_def Let_def dest!: accepted_insert)

lemma profiles_none:
  assumes "profile_table (fld b ''role'') = None"
  shows "status (fst (register_profiles sch pid now_ms today b u d1)) = 201"
        "snd (register_profiles sch pid now_ms today b u d1) = d1"
  using assms
  by (auto simp: register_profiles_def Let_def profile_table_def split: if_splits)

text \<open>
  C9. The store hands out a non-null id \<open>uid\<close> that no stored user has. Then:
  a registration that does not end in 201 leaves the store exactly as it was, also when
  the profile insert fails after the user row was written; a registration ends in 201 only
  when its guards passed; and when the guards passed, the outcome is decided by the store
  alone. If the store refuses the user row, the answer is 500 and nothing is stored. If it
  takes the user row, then for a teacher, a student and a parent: when it takes the profile
  row too, the answer is 201 and the store holds exactly the user row and the profile row
  more, the profile row referring to the user; when it refuses the profile row, the answer
  is 500 "Failed to create ... profile" and the store is as it was. For the other roles the
  answer is 201 with the user row alone. So a store in which every teacher, student and
  parent has a profile row is again such a store after any registration.
\<close>

theorem register_profile_atomic:
  fixes req :: request and d :: db and sch :: schema and uid pid :: jv and now_ms today e h :: string
    and lower :: "string \<Rightarrow> string" and hash :: "jv \<Rightarrow> string option"
  assumes fresh: "notnull uid" "\<forall>r \<in> set (d ''users''). fld r ''id'' \<noteq> uid"
  defines "res \<equiv> register lower hash sch uid pid now_ms today d req"
      and "b \<equiv> body req"
  defines "newUser \<equiv> [(''id'', uid), (''email'', JStr (lower e)), (''password_hash'', JStr h),
                       (''role'', fld b ''role''), (''first_name'', fld b ''first_name''),
                       (''last_name'', fld b ''last_name''), (''phone'', fld b ''phone''),
                       (''is_active'', JBool True)]"
      and "teacher \<equiv> [(''id'', pid), (''user_id'', uid),
                       (''employee_number'', JStr (''TCH'' @ now_ms)),
                       (''department_id'', or_null (fld b ''department_id'')),
                       (''hire_date'', JStr today)]"
      and "student \<equiv> [(''id'', pid), (''user_id'', uid),
                       (''student_number'', JStr (''STU'' @ now_ms)),
                       (''class_id'', or_null (fld b ''class_id'')),
                       (''date_of_birth'', or_null (fld b ''date_of_birth'')),
                       (''gender'', or_null (fld b ''gender'')),
                       (''address'', or_null (fld b ''address'')),
                       (''enrollment_date'', JStr today)]"
      and "parent \<equiv> [(''id'', pid), (''user_id'', uid),
                      (''relationship'', or_null (fld b ''relationship'')),
                      (''occupation'', or_null (fld b ''occupation''))]"
  defines "d1 \<equiv> d(''users'' := d ''users'' @ [newUser])"
  shows "(status (fst res) \<noteq> 201 \<longrightarrow> snd res = d)
       \<and> (status (fst res) = 201 \<longrightarrow> (\<exists>e' h'. admitted lower hash d req e' h'))
       \<and> (profiled d \<longrightarrow> profiled (snd res))
       \<and> (admitted lower hash d req e h \<longrightarrow>
            (\<not> accepted sch d ''users'' newUser \<longrightarrow> res = (err 500 ''Failed to create user'', d))
          \<and> (accepted sch d ''users'' newUser \<longrightarrow>
               (fld b ''role'' = JStr ''teacher'' \<longrightarrow>
                  (if accepted sch d1 ''teachers'' teacher
                   then status (fst res) = 201 \<and> snd res = d1(''teachers'' := d1 ''teachers'' @ [teacher])
                   else res = (err 500 ''Failed to create teacher profile'', d)))
             \<and> (fld b ''role'' = JStr ''student'' \<longrightarrow>
                  (if accepted sch d1 ''students'' student
                   then status (fst res) = 201 \<and> snd res = d1(''students'' := d1 ''students'' @ [student])
                   else res = (err 500 ''Failed to create student profile'', d)))
             \<and> (fld b ''role'' = JStr ''parent'' \<longrightarrow>
                  (if accepted sch d1 ''parents'' parent
                   then status (fst res) = 201 \<and> snd res = d1(''parents'' := d1 ''parents'' @ [parent])
                   else res = (err 500 ''Failed to create parent profile'', d)))
             \<and> (profile_table (fld b ''role'') = None \<longrightarrow> status (fst res) = 201 \<and> snd res = d1)))"
proof -
  have general: "(status (fst res) \<noteq> 201 \<longrightarrow> snd res = d) \<and> (profiled d \<longrightarrow> profiled (snd res))"
  proof -
    from register_cases [of lower hash sch uid pid now_ms today d req]
    consider (guard) "status (fst res) \<noteq> 201" "snd res = d"
      | (user) u where "fld u ''id'' = uid" "fld u ''role'' = fld b ''role''"
          "res = register_profiles sch pid now_ms today (body req) u (d(''users'' := d ''users'' @ [u]))"
      unfolding res_def b_def by blast
    then show ?thesis
    proof cases
      case guard
      then show ?thesis by simp
    next
      case user
      let ?d1 = "d(''users'' := d ''users'' @ [u])"
      have rb: "rollback_user ?d1 u = d"
        using fresh user(1) by (intro rollback_fresh) simp_all
      have r: "register_profiles sch pid now_ms today (body req) u ?d1 = res"
        using user(3) by simp
      note cases = register_profiles_cases [of sch pid now_ms today "body req" u ?d1,
                     unfolded r, folded b_def, unfolded user(1)]
      from cases
      consider (rolled) "status (fst res) = 500" "snd res = rollback_user ?d1 u"
        | (plain) "status (fst res) = 201" "profile_table (fld b ''role'') = None" "snd res = ?d1"
        | (profile) t p where "status (fst res) = 201" "profile_table (fld b ''role'') = Some t"
            "fld p ''user_id'' = uid" "snd res = ?d1(t := ?d1 t @ [p])"
        by (elim disjE conjE exE) blast+
      then show ?thesis
      proof cases
        case rolled
        then show ?thesis by (simp add: rb)
      next
        case plain
        have "profiled d \<longrightarrow> profiled (snd res)"
          using plain(2) user(2) by (simp add: plain(3) profiled_plain)
        then show ?thesis using plain(1) by simp
      next
        case profile
        have "profiled d \<longrightarrow> profiled (snd res)"
        proof
          assume "profiled d"
          moreover have "profile_table (fld u ''role'') = Some t"
            using profile(2) user(2) by simp
          moreover have "fld p ''user_id'' = fld u ''id''"
            using profile(3) user(1) by simp
          ultimately show "profiled (snd res)"
            unfolding profile(4) by (intro profiled_with)
        qed
        then show ?thesis using profile(1) by simp
      qed
    qed
  qed
  have only: "status (fst res) = 201 \<longrightarrow> (\<exists>e' h'. admitted lower hash d req e' h')"
    unfolding res_def by (blast intro: register_201_admitted)
  have run: "(\<not> accepted sch d ''users'' newUser \<longrightarrow> res = (err 500 ''Failed to create user'', d))
          \<and> (accepted sch d ''users'' newUser \<longrightarrow>
               (fld b ''role'' = JStr ''teacher'' \<longrightarrow>
                  (if accepted sch d1 ''teachers'' teacher
                   then status (fst res) = 201 \<and> snd res = d1(''teachers'' := d1 ''teachers'' @ [teacher])
                   else res = (err 500 ''Failed to create teacher profile'', d)))
             \<and> (fld b ''role'' = JStr ''student'' \<longrightarrow>
                  (if accepted sch d1 ''students'' student
                   then status (fst res) = 201 \<and> snd res = d1(''students'' := d1 ''students'' @ [student])
                   else res = (err 500 ''Failed to create student profile'', d)))
             \<and> (fld b ''role'' = JStr ''parent'' \<longrightarrow>
                  (if accepted sch d1 ''parents'' parent
                   then status (fst res) = 201 \<and> snd res = d1(''parents'' := d1 ''parents'' @ [parent])
                   else res = (err 500 ''Failed to create parent profile'', d)))
             \<and> (profile_table (fld b ''role'') = None \<longrightarrow> status (fst res) = 201 \<and> snd res = d1))"
    if adm: "admitted lower hash d req e h"
  proof -
    have id: "fld newUser ''id'' = uid"
      by (simp add: newUser_def fld_cons)
    have rb: "rollback_user d1 newUser = d"
      unfolding d1_def using fresh id by (intro rollback_fresh) simp_all
    have reg: "res = (case insert_rows sch d ''users'' [newUser] of
                        Inl c \<Rightarrow> (err 500 ''Failed to create user'', d)
                      | Inr d' \<Rightarrow> register_profiles sch pid now_ms today b newUser d')"
      unfolding res_def newUser_def b_def by (rule register_admitted [OF adm])
    have no: "res = (err 500 ''Failed to create user'', d)" if "\<not> accepted sch d ''users'' newUser"
      using accepted_insert(2) [OF that] by (auto simp: reg)
    have yes: "res = register_profiles sch pid now_ms today b newUser d1"
      if "accepted sch d ''users'' newUser"
      using accepted_insert(1) [OF that] by (simp add: reg d1_def)
    have t: "(if accepted sch d1 ''teachers'' teacher
                   then status (fst res) = 201 \<and> snd res = d1(''teachers'' := d1 ''teachers'' @ [teacher])
                   else res = (err 500 ''Failed to create teacher profile'', d))"
      if "accepted sch d ''users'' newUser" "fld b ''role'' = JStr ''teacher''"
      using profiles_teacher [OF that(2), of sch d1 pid newUser now_ms today]
      by (simp add: yes [OF that(1)] id teacher_def rb)
    have s: "(if accepted sch d1 ''students'' student
                   then status (fst res) = 201 \<and> snd res = d1(''students'' := d1 ''students'' @ [student])
                   else res = (err 500 ''Failed to create student profile'', d))"
      if "accepted sch d ''users'' newUser" "fld b ''role'' = JStr ''student''"
      using profiles_student [OF that(2), of sch d1 pid newUser now_ms today]
      by (simp add: yes [OF that(1)] id student_def rb)
    have p: "(if accepted sch d1 ''parents'' parent
                   then status (fst res) = 201 \<and> snd res = d1(''parents'' := d1 ''parents'' @ [parent])
                   else res = (err 500 ''Failed to create parent profile'', d))"
      if "accepted sch d ''users'' newUser" "fld b ''role'' = JStr ''parent''"
      using profiles_parent [OF that(2), of sch d1 pid newUser]
      by (simp add: yes [OF that(1)] id parent_def rb)
    have n: "status (fst res) = 201 \<and> snd res = d1"
      if "accepted sch d ''users'' newUser" "profile_table (fld b ''role'') = None"
      using profiles_none [OF that(2), of sch pid now_ms today newUser d1]
      by (simp add: yes [OF that(1)])
    from no t s p n show ?thesis by blast
  qed
  from general only run show ?thesis by blast
qed

text \<open>
  In the school every teacher has a profile row. Carl is registered as a teacher of the
  department \<^verbatim>\<open>d1\<close>, Dora as a student of the class \<^verbatim>\<open>c1\<close> and Emma as a parent: 201,
  with the user row and the profile row stored. With the department \<^verbatim>\<open>d9\<close> or the class
  \<^verbatim>\<open>c9\<close>, which do not exist, or with a parent id that is taken, the profile row is refused:
  500, and the school is as it was.
\<close>

lemma school_users:
  "school ''users'' =
        [[(''id'', JStr ''a1''), (''email'', JStr ''head@school''), (''password_hash'', JStr ''#a''),
          (''role'', JStr ''admin''), (''is_active'', JBool True)],
         [(''id'', JStr ''h1''), (''email'', JStr ''hod@school''), (''password_hash'', JStr ''#h''),
          (''role'', JStr ''hod''), (''is_active'', JBool True)],
         [(''id'', JStr ''t1''), (''email'', JStr ''ann@school''), (''password_hash'', JStr ''#t''),
          (''role'', JStr ''teacher''), (''is_active'', JBool True)],
         [(''id'', JStr ''t2''), (''email'', JStr ''bob@school''), (''password_hash'', JStr ''#b''),
          (''role'', JStr ''teacher''), (''is_active'', JBool False)]]"
  "school ''teachers'' = [[(''id'', JStr ''tp1''), (''user_id'', JStr ''t1'')],
         [(''id'', JStr ''tp2''), (''user_id'', JStr ''t2'')]]"
  "school_schema ''users'' = \<lparr>uniques = [[''id''], [''email'']], fks = [], types = [], not_null = []\<rparr>"
  "school_schema ''teachers'' = \<lparr>uniques = [[''id''], [''user_id'']],
     fks = [(''department_id'', ''departments'')], types = [], not_null = []\<rparr>"
  by (simp_all add: school_def school_schema_def)

lemma school_profiled: "profiled school"
  by (simp add: profiled_def school_users profile_table_def fld_def)

lemma carl_user:
  "insert_rows school_schema school ''users''
     [[(''id'', JStr ''u5''), (''email'', JStr ''carl@school''), (''password_hash'', JStr ''#pw''),
       (''role'', JStr ''teacher''), (''first_name'', JStr ''Carl''), (''last_name'', JStr ''Zed''),
       (''phone'', JUndefined), (''is_active'', JBool True)]]
   = Inr (school(''users'' := school ''users'' @
     [[(''id'', JStr ''u5''), (''email'', JStr ''carl@school''), (''password_hash'', JStr ''#pw''),
       (''role'', JStr ''teacher''), (''first_name'', JStr ''Carl''), (''last_name'', JStr ''Zed''),
       (''phone'', JUndefined), (''is_active'', JBool True)]]))"
  by (simp add: insert_one dup_key_def dangling_def typed_ok_def lacks_value_def resolves_def
          same_value_def col_type_def school_users same_key_def fld_def notnull_def)

lemma carl_fields:
  "fld (carl dep) ''email'' = JStr ''carl@school''" "fld (carl dep) ''password'' = JStr ''pw''"
  "fld (carl dep) ''role'' = JStr ''teacher''" "fld (carl dep) ''first_name'' = JStr ''Carl''"
  "fld (carl dep) ''last_name'' = JStr ''Zed''" "fld (carl dep) ''phone'' = JUndefined"
  "fld (carl dep) ''department_id'' = JStr dep"
  by (simp_all add: carl_def fld_def)

lemma carl_register:
  "register (\<lambda>s. s) toy_hash school_schema (JStr ''u5'') (JStr ''q5'') ''1700000000000'' ''2026-01-05''
      school (as_admin (carl dep) [])
   = register_profiles school_schema (JStr ''q5'') ''1700000000000'' ''2026-01-05'' (carl dep)
       [(''id'', JStr ''u5''), (''email'', JStr ''carl@school''), (''password_hash'', JStr ''#pw''),
       (''role'', JStr ''teacher''), (''first_name'', JStr ''Carl''), (''last_name'', JStr ''Zed''),
       (''phone'', JUndefined), (''is_active'', JBool True)]
       (school(''users'' := school ''users'' @
     [[(''id'', JStr ''u5''), (''email'', JStr ''carl@school''), (''password_hash'', JStr ''#pw''),
       (''role'', JStr ''teacher''), (''first_name'', JStr ''Carl''), (''last_name'', JStr ''Zed''),
       (''phone'', JUndefined), (''is_active'', JBool True)]]))"
proof -
  have a: "user (as_admin (carl dep) []) = Some [(''id'', JStr ''a1''), (''email'', JStr ''head@school''), (''password_hash'', JStr ''#a''),
                  (''role'', JStr ''admin''), (''is_active'', JBool True)]"
       "body (as_admin (carl dep) []) = carl dep"
    by (simp_all add: as_admin_def)
  have e: "eq_col ''email'' (JStr ''carl@school'') (school ''users'') = []"
    by (simp add: eq_col_def school_users fld_def)
  show ?thesis
    by (simp add: register_def Let_def a carl_fields fld_cons validRoles_def e single_def select_cols_def
          toy_hash_def carl_user)
qed

lemma carl_in_science:
  "register (\<lambda>s. s) toy_hash school_schema (JStr ''u5'') (JStr ''q5'') ''1700000000000'' ''2026-01-05''
      school (as_admin (carl ''d1'') [])
   = (\<lparr>status = 201, json = [(''success'', JBool True),
          (''message'', JStr ''User registered successfully''),
          (''user'', JObj [(''id'', JStr ''u5''), (''email'', JStr ''carl@school''),
             (''role'', JStr ''teacher''), (''first_name'', JStr ''Carl''), (''last_name'', JStr ''Zed''),
             (''phone'', JUndefined), (''is_active'', JBool True)]),
          (''student_id'', JNull), (''parent_id'', JNull)]\<rparr>,
      school(''users'' := school ''users'' @
               [[(''id'', JStr ''u5''), (''email'', JStr ''carl@school''), (''password_hash'', JStr ''#pw''),
                 (''role'', JStr ''teacher''), (''first_name'', JStr ''Carl''), (''last_name'', JStr ''Zed''),
                 (''phone'', JUndefined), (''is_active'', JBool True)]],
             ''teachers'' := school ''teachers'' @
               [[(''id'', JStr ''q5''), (''user_id'', JStr ''u5''),
                 (''employee_number'', JStr ''TCH1700000000000''),
                 (''department_id'', JStr ''d1''),
                 (''hire_date'', JStr ''2026-01-05'')]]))"
proof -
  let ?u = "[(''id'', JStr ''u5''), (''email'', JStr ''carl@school''), (''password_hash'', JStr ''#pw''),
       (''role'', JStr ''teacher''), (''first_name'', JStr ''Carl''), (''last_name'', JStr ''Zed''),
       (''phone'', JUndefined), (''is_active'', JBool True)]"
  let ?d1 = "school(''users'' := school ''users'' @ [?u])"
  let ?p = "[(''id'', JStr ''q5''), (''user_id'', JStr ''u5''),
                  (''employee_number'', JStr ''TCH1700000000000''),
                  (''department_id'', JStr ''d1''),
                  (''hire_date'', JStr ''2026-01-05'')]"
  have t: "insert_rows school_schema ?d1 ''teachers'' [?p] = Inr (?d1(''teachers'' := school ''teachers'' @ [?p]))"
    by (simp add: insert_one dup_key_def dangling_def typed_ok_def lacks_value_def resolves_def
          same_value_def col_type_def school_users same_key_def fld_def notnull_def
          eq_col_def school_def)
  show ?thesis
    by (simp add: carl_register register_profiles_def teacher_profile_def Let_def carl_fields
          fld_cons or_null_def t omit_def id_or_null_def)
qed

lemma school_rows:
  "school ''students'' = []" "school ''parents'' = [[(''id'', JStr ''p1''), (''user_id'', JStr ''u9'')]]"
  "school ''classes'' = [[(''id'', JStr ''c1''), (''name'', JStr ''Form 1A''), (''level'', JStr ''Form 1'')]]"
  "school_schema ''students'' = \<lparr>uniques = [[''id''], [''user_id'']], fks = [(''class_id'', ''classes'')],
     types = [], not_null = []\<rparr>"
  "school_schema ''parents'' = \<lparr>uniques = [[''id''], [''user_id'']], fks = [], types = [], not_null = []\<rparr>"
  by (simp_all add: school_def school_schema_def)

lemma school_admits:
  "admitted (\<lambda>s. s) toy_hash school (as_admin (carl dep) []) ''carl@school'' ''#pw''"
  "admitted (\<lambda>s. s) toy_hash school (as_admin (dora cls) []) ''dora@school'' ''#pw''"
  "admitted (\<lambda>s. s) toy_hash school (as_admin emma []) ''emma@school'' ''#pw''"
  by (simp_all add: admitted_def as_admin_def carl_def dora_def emma_def fld_def validRoles_def
        eq_col_def school_users single_def select_cols_def toy_hash_def notnull_def)

lemma school_fresh: "\<forall>r \<in> set (school ''users''). fld r ''id'' \<noteq> JStr ''u5''"
  by (simp add: school_users fld_def)

lemma school_takes_user:
  "e \<notin> {''head@school'', ''hod@school'', ''ann@school'', ''bob@school''} \<Longrightarrow>
   accepted school_schema school ''users''
     [(''id'', JStr ''u5''), (''email'', JStr e), (''password_hash'', JStr ''#pw''),
      (''role'', fld b ''role''), (''first_name'', fld b ''first_name''),
      (''last_name'', fld b ''last_name''), (''phone'', fld b ''phone''), (''is_active'', JBool True)]"
  by (auto simp: accepted_def insert_one dup_key_def dangling_def typed_ok_def lacks_value_def
        same_value_def col_type_def school_users same_key_def fld_cons notnull_def)

lemma school_profile_rows:
  fixes u :: row
  defines "d1 \<equiv> school(''users'' := school ''users'' @ [u])"
  shows "accepted school_schema d1 ''teachers''
           [(''id'', JStr ''q5''), (''user_id'', JStr ''u5''), (''employee_number'', JStr n),
            (''department_id'', JStr ''d1''), (''hire_date'', JStr t)]"
    and "\<not> accepted school_schema d1 ''teachers''
           [(''id'', JStr ''q5''), (''user_id'', JStr ''u5''), (''employee_number'', JStr n),
            (''department_id'', JStr ''d9''), (''hire_date'', JStr t)]"
    and "accepted school_schema d1 ''students''
           [(''id'', JStr ''q5''), (''user_id'', JStr ''u5''), (''student_number'', JStr n),
            (''class_id'', JStr ''c1''), (''date_of_birth'', JNull), (''gender'', JNull),
            (''address'', JNull), (''enrollment_date'', JStr t)]"
    and "\<not> accepted school_schema d1 ''students''
           [(''id'', JStr ''q5''), (''user_id'', JStr ''u5''), (''student_number'', JStr n),
            (''class_id'', JStr ''c9''), (''date_of_birth'', JNull), (''gender'', JNull),
            (''address'', JNull), (''enrollment_date'', JStr t)]"
    and "accepted school_schema d1 ''parents''
           [(''id'', JStr ''q5''), (''user_id'', JStr ''u5''), (''relationship'', JStr ''mother''),
            (''occupation'', JNull)]"
    and "\<not> accepted school_schema d1 ''parents''
           [(''id'', JStr ''p1''), (''user_id'', JStr ''u5''), (''relationship'', JStr ''mother''),
            (''occupation'', JNull)]"
  unfolding d1_def
  by (simp_all add: accepted_def insert_one dup_key_def dangling_def typed_ok_def lacks_value_def
        resolves_def same_value_def col_type_def school_users school_rows school_subjects
        same_key_def fld_cons notnull_def)

lemma sample_fields:
  "fld (dora cls) ''role'' = JStr ''student''" "fld (dora cls) ''class_id'' = JStr cls"
  "fld (dora cls) ''date_of_birth'' = JUndefined" "fld (dora cls) ''gender'' = JUndefined"
  "fld (dora cls) ''address'' = JUndefined"
  "fld emma ''role'' = JStr ''parent''" "fld emma ''relationship'' = JStr ''mother''"
  "fld emma ''occupation'' = JUndefined"
  by (simp_all add: dora_def emma_def fld_def)

theorem register_profile_atomic_witness:
  "profiled school
   \<and> status (fst (enrol (JStr ''q5'') (carl ''d1''))) = 201
   \<and> snd (enrol (JStr ''q5'') (carl ''d1'')) ''teachers'' = school ''teachers'' @
        [[(''id'', JStr ''q5''), (''user_id'', JStr ''u5''), (''employee_number'', JStr ''TCH1700000000000''),
          (''department_id'', JStr ''d1''), (''hire_date'', JStr ''2026-01-05'')]]
   \<and> enrol (JStr ''q5'') (carl ''d9'') = (err 500 ''Failed to create teacher profile'', school)
   \<and> status (fst (enrol (JStr ''q5'') (dora ''c1''))) = 201
   \<and> snd (enrol (JStr ''q5'') (dora ''c1'')) ''students'' =
        [[(''id'', JStr ''q5''), (''user_id'', JStr ''u5''), (''student_number'', JStr ''STU1700000000000''),
          (''class_id'', JStr ''c1''), (''date_of_birth'', JNull), (''gender'', JNull),
          (''address'', JNull), (''enrollment_date'', JStr ''2026-01-05'')]]
   \<and> enrol (JStr ''q5'') (dora ''c9'') = (err 500 ''Failed to create student profile'', school)
   \<and> status (fst (enrol (JStr ''q5'') emma)) = 201
   \<and> snd (enrol (JStr ''q5'') emma) ''parents'' = school ''parents'' @
        [[(''id'', JStr ''q5''), (''user_id'', JStr ''u5''), (''relationship'', JStr ''mother''),
          (''occupation'', JNull)]]
   \<and> enrol (JStr ''p1'') emma = (err 500 ''Failed to create parent profile'', school)"
proof -
  have n: "notnull (JStr ''u5'')" by (simp add: notnull_def)
  note run = register_profile_atomic [where lower = "\<lambda>s. s" and hash = toy_hash and sch = school_schema
      and uid = "JStr ''u5''" and now_ms = "''1700000000000''" and today = "''2026-01-05''"
      and d = school and h = "''#pw''", OF n school_fresh]
  have c1: "status (fst (enrol (JStr ''q5'') (carl ''d1''))) = 201
     \<and> snd (enrol (JStr ''q5'') (carl ''d1'')) ''teachers'' = school ''teachers'' @
        [[(''id'', JStr ''q5''), (''user_id'', JStr ''u5''), (''employee_number'', JStr ''TCH1700000000000''),
          (''department_id'', JStr ''d1''), (''hire_date'', JStr ''2026-01-05'')]]"
    using run [where req = "as_admin (carl ''d1'') []" and e = "''carl@school''" and pid = "JStr ''q5''"]
      school_admits(1) [of "''d1''"] school_takes_user [of "''carl@school''" "carl ''d1''"]
      school_profile_rows(1)
    by (simp add: enrol_def body_as_admin carl_fields or_null_def)
  have c9: "enrol (JStr ''q5'') (carl ''d9'') = (err 500 ''Failed to create teacher profile'', school)"
    using run [where req = "as_admin (carl ''d9'') []" and e = "''carl@school''" and pid = "JStr ''q5''"]
      school_admits(1) [of "''d9''"] school_takes_user [of "''carl@school''" "carl ''d9''"]
      school_profile_rows(2)
    by (simp add: enrol_def body_as_admin carl_fields or_null_def)
  have d1: "status (fst (enrol (JStr ''q5'') (dora ''c1''))) = 201
     \<and> snd (enrol (JStr ''q5'') (dora ''c1'')) ''students'' =
        [[(''id'', JStr ''q5''), (''user_id'', JStr ''u5''), (''student_number'', JStr ''STU1700000000000''),
          (''class_id'', JStr ''c1''), (''date_of_birth'', JNull), (''gender'', JNull),
          (''address'', JNull), (''enrollment_date'', JStr ''2026-01-05'')]]"
    using run [where req = "as_admin (dora ''c1'') []" and e = "''dora@school''" and pid = "JStr ''q5''"]
      school_admits(2) [of "''c1''"] school_takes_user [of "''dora@school''" "dora ''c1''"]
      school_profile_rows(3)
    by (simp add: enrol_def body_as_admin sample_fields or_null_def school_rows)
  have d9: "enrol (JStr ''q5'') (dora ''c9'') = (err 500 ''Failed to create student profile'', school)"
    using run [where req = "as_admin (dora ''c9'') []" and e = "''dora@school''" and pid = "JStr ''q5''"]
      school_admits(2) [of "''c9''"] school_takes_user [of "''dora@school''" "dora ''c9''"]
      school_profile_rows(4)
    by (simp add: enrol_def body_as_admin sample_fields or_null_def)
  have e1: "status (fst (enrol (JStr ''q5'') emma)) = 201
     \<and> snd (enrol (JStr ''q5'') emma) ''parents'' = school ''parents'' @
        [[(''id'', JStr ''q5''), (''user_id'', JStr ''u5''), (''relationship'', JStr ''mother''),
          (''occupation'', JNull)]]"
    using run [where req = "as_admin emma []" and e = "''emma@school''" and pid = "JStr ''q5''"]
      school_admits(3) school_takes_user [of "''emma@school''" emma]
      school_profile_rows(5)
    by (simp add: enrol_def body_as_admin sample_fields or_null_def)
  have e9: "enrol (JStr ''p1'') emma = (err 500 ''Failed to create parent profile'', school)"
    using run [where req = "as_admin emma []" and e = "''emma@school''" and pid = "JStr ''p1''"]
      school_admits(3) school_takes_user [of "''emma@school''" emma]
      school_profile_rows(6)
    by (simp add: enrol_def body_as_admin sample_fields or_null_def)
  from school_profiled c1 c9 d1 d9 e1 e9 show ?thesis by blast
qed

section \<open>The user in the answers of login and register\<close>

lemma omit_absent: "k \<notin> fst ` set (omit k r)"
  by (auto simp: omit_def)

lemma login_user_stripped:
  assumes "status (fst (login lower compare sign secret now_iso d req)) = 200"
  shows "\<exists>u. fld (json (fst (login lower compare sign secret now_iso d req))) ''user'' = JObj (omit ''password_hash'' u)"
  using assms
  by (auto simp: login_def Let_def err_def fld_cons split: jv.splits option.splits prod.splits bool.splits if_splits)

lemma register_profiles_user_stripped:
  assumes "status (fst (register_profiles sch pid now_ms today b newUser d1)) = 201"
  shows "fld (json (fst (register_profiles sch pid now_ms today b newUser d1))) ''user''
           = JObj (omit ''password_hash'' newUser)"
  using assms
  by (auto simp: register_profiles_def Let_def err_def fld_cons split: sum.splits prod.splits if_splits)

lemma register_user_stripped:
  assumes "status (fst (register lower hash sch uid pid now_ms today d req)) = 201"
  shows "\<exists>u. fld (json (fst (register lower hash sch uid pid now_ms today d req))) ''user'' = JObj (omit ''password_hash'' u)"
  using assms
  by (auto simp: register_def Let_def err_def register_profiles_user_stripped
           split: jv.splits option.splits sum.splits if_splits)

text \<open>
  C10. In every answer 200 of \<^verbatim>\<open>login\<close> and every answer 201 of \<^verbatim>\<open>register\<close> the
  \<^verbatim>\<open>user\<close> property is an object without a \<^verbatim>\<open>password_hash\<close> property.
\<close>

theorem no_password_hash_in_response:
  "(status (fst (login lower compare sign secret now_iso d req)) = 200 \<longrightarrow>
      (\<exists>u. fld (json (fst (login lower compare sign secret now_iso d req))) ''user'' = JObj u
           \<and> ''password_hash'' \<notin> fst ` set u))
   \<and> (status (fst (register lower' hash sch uid pid now_ms today d' req')) = 201 \<longrightarrow>
      (\<exists>u. fld (json (fst (register lower' hash sch uid pid now_ms today d' req'))) ''user'' = JObj u
           \<and> ''password_hash'' \<notin> fst ` set u))"
  using login_user_stripped [of lower compare sign secret now_iso d req]
        register_user_stripped [of lower' hash sch uid pid now_ms today d' req']
        omit_absent [of "''password_hash''"]
  by metis

text \<open>
  Ann logs in and Carl is registered: both answers carry the user without the hash.
\<close>

lemma ann_login:
  "login (\<lambda>s. s) toy_compare (\<lambda>payload secret span. ''tok'') ''k'' ''2026-01-05T08:00:00Z'' school
     \<lparr>authorization = None, body = [(''email'', JStr ''ann@school''), (''password'', JStr ''t'')],
      params = [], user = None\<rparr>
   = (\<lparr>status = 200, json = [(''success'', JBool True), (''message'', JStr ''Login successful''),
         (''token'', JStr ''tok''),
         (''user'', JObj [(''id'', JStr ''t1''), (''email'', JStr ''ann@school''),
                          (''role'', JStr ''teacher''), (''is_active'', JBool True)])]\<rparr>,
      school(''users'' := update_where (\<lambda>r. fld r ''id'' = JStr ''t1'')
               [(''last_login'', JStr ''2026-01-05T08:00:00Z'')] (school ''users'')))"
proof -
  have e: "eq_col ''email'' (JStr ''ann@school'') (school ''users'') =
     [[(''id'', JStr ''t1''), (''email'', JStr ''ann@school''), (''password_hash'', JStr ''#t''),
          (''role'', JStr ''teacher''), (''is_active'', JBool True)]]"
    by (simp add: eq_col_def school_users fld_def notnull_def)
  show ?thesis
    by (simp add: login_def Let_def fld_cons e single_def toy_compare_def toy_hash_def notnull_def
          generateToken_def omit_def)
qed

theorem no_password_hash_in_response_witness:
  "status (fst (login (\<lambda>s. s) toy_compare (\<lambda>payload secret span. ''tok'') ''k'' ''2026-01-05T08:00:00Z'' school
     \<lparr>authorization = None, body = [(''email'', JStr ''ann@school''), (''password'', JStr ''t'')],
      params = [], user = None\<rparr>)) = 200
   \<and> fld (json (fst (login (\<lambda>s. s) toy_compare (\<lambda>payload secret span. ''tok'') ''k'' ''2026-01-05T08:00:00Z'' school
     \<lparr>authorization = None, body = [(''email'', JStr ''ann@school''), (''password'', JStr ''t'')],
      params = [], user = None\<rparr>))) ''user''
     = JObj [(''id'', JStr ''t1''), (''email'', JStr ''ann@school''),
             (''role'', JStr ''teacher''), (''is_active'', JBool True)]
   \<and> status (fst (register (\<lambda>s. s) toy_hash school_schema (JStr ''u5'') (JStr ''q5'') ''1700000000000''
      ''2026-01-05'' school (as_admin (carl ''d1'') []))) = 201
   \<and> (\<exists>u. fld (json (fst (register (\<lambda>s. s) toy_hash school_schema (JStr ''u5'') (JStr ''q5'')
              ''1700000000000'' ''2026-01-05'' school (as_admin (carl ''d1'') [])))) ''user'' = JObj u
          \<and> ''password_hash'' \<notin> fst ` set u)"
proof -
  have s1: "status (fst (register (\<lambda>s. s) toy_hash school_schema (JStr ''u5'') (JStr ''q5'') ''1700000000000''
      ''2026-01-05'' school (as_admin (carl ''d1'') []))) = 201"
    by (simp add: carl_in_science)
  have l: "status (fst (login (\<lambda>s. s) toy_compare (\<lambda>payload secret span. ''tok'') ''k'' ''2026-01-05T08:00:00Z'' school
     \<lparr>authorization = None, body = [(''email'', JStr ''ann@school''), (''password'', JStr ''t'')],
      params = [], user = None\<rparr>)) = 200"
    "fld (json (fst (login (\<lambda>s. s) toy_compare (\<lambda>payload secret span. ''tok'') ''k'' ''2026-01-05T08:00:00Z'' school
     \<lparr>authorization = None, body = [(''email'', JStr ''ann@school''), (''password'', JStr ''t'')],
      params = [], user = None\<rparr>))) ''user''
     = JObj [(''id'', JStr ''t1''), (''email'', JStr ''ann@school''),
             (''role'', JStr ''teacher''), (''is_active'', JBool True)]"
    by (simp_all add: ann_login fld_cons)
  from no_password_hash_in_response [where lower' = "\<lambda>s. s" and hash = toy_hash
          and sch = school_schema and uid = "JStr ''u5''" and pid = "JStr ''q5''"
          and now_ms = "''1700000000000''" and today = "''2026-01-05''" and d' = school
          and req' = "as_admin (carl ''d1'') []"] s1
  have "\<exists>u. fld (json (fst (register (\<lambda>s. s) toy_hash school_schema (JStr ''u5'') (JStr ''q5'')
              ''1700000000000'' ''2026-01-05'' school (as_admin (carl ''d1'') [])))) ''user'' = JObj u
          \<and> ''password_hash'' \<notin> fst ` set u"
    by blast
  with l s1 show ?thesis by blast
qed

end
